theory Spec2Isabelle
  imports
    Complex_Main
    "HOL-Library.Word"
    "HOL-Library.Log_Nat"
    "HOL-Library.Char_ord"
    "HOL-Library.List_Lexorder"
    "HOL-Library.AList"
begin

unbundle bit_operations_syntax

section \<open>Python values and the builtins the synchroniser relies on\<close>

text \<open>
  The source handles untyped cell values decoded from JSON (\<^verbatim>\<open>Any\<close>): \<^verbatim>\<open>None\<close>, booleans,
  unbounded integers, binary64 floats, strings and lists. A finite float is carried by the
  rational it denotes; negative zero, the two infinities and NaN are separate constructors.
  Strings are lists of code points below 256. Dictionaries as cell values are not modelled.
\<close>

datatype pyfloat = Fin rat | NegZero | PInf | NInf | NaN

datatype pyval =
    PNone
  | PBool bool
  | PInt int
  | PFloat pyfloat
  | PStr string
  | PList "pyval list"

text \<open>The exception classes that the modelled code can meet.\<close>

datatype exn = ValueError | TypeError | OverflowError | KeyError

subsection \<open>Truth value and equality\<close>

text \<open>\<^verbatim>\<open>bool(v)\<close>, as used by \<^verbatim>\<open>not v\<close> and \<^verbatim>\<open>if v\<close>.\<close>

fun float_is_zero :: "pyfloat \<Rightarrow> bool" where
  "float_is_zero (Fin q) = (q = 0)"
| "float_is_zero NegZero = True"
| "float_is_zero _ = False"

fun truthy :: "pyval \<Rightarrow> bool" where
  "truthy PNone = False"
| "truthy (PBool b) = b"
| "truthy (PInt i) = (i \<noteq> 0)"
| "truthy (PFloat f) = (\<not> float_is_zero f)"
| "truthy (PStr s) = (s \<noteq> [])"
| "truthy (PList xs) = (xs \<noteq> [])"

text \<open>
  \<^verbatim>\<open>a == b\<close>. Booleans, integers and floats compare by numeric value (\<^verbatim>\<open>0 == False\<close>,
  \<^verbatim>\<open>1.0 == 1\<close>), NaN equals nothing, values of different kinds are unequal.
\<close>

fun float_eq :: "pyfloat \<Rightarrow> pyfloat \<Rightarrow> bool" where
  "float_eq NaN _ = False"
| "float_eq _ NaN = False"
| "float_eq (Fin a) (Fin b) = (a = b)"
| "float_eq (Fin a) NegZero = (a = 0)"
| "float_eq NegZero (Fin b) = (b = 0)"
| "float_eq NegZero NegZero = True"
| "float_eq PInf PInf = True"
| "float_eq NInf NInf = True"
| "float_eq _ _ = False"

fun as_number :: "pyval \<Rightarrow> pyfloat option" where
  "as_number (PBool b) = Some (Fin (if b then 1 else 0))"
| "as_number (PInt i) = Some (Fin (of_int i))"
| "as_number (PFloat f) = Some f"
| "as_number _ = None"

fun py_eq :: "pyval \<Rightarrow> pyval \<Rightarrow> bool"
  and py_eq_list :: "pyval list \<Rightarrow> pyval list \<Rightarrow> bool" where
  "py_eq PNone b = (b = PNone)"
| "py_eq (PStr s) b = (b = PStr s)"
| "py_eq (PList xs) b = (case b of PList ys \<Rightarrow> py_eq_list xs ys | _ \<Rightarrow> False)"
| "py_eq (PBool x) b =
     (case as_number b of Some g \<Rightarrow> float_eq (Fin (if x then 1 else 0)) g | None \<Rightarrow> False)"
| "py_eq (PInt i) b =
     (case as_number b of Some g \<Rightarrow> float_eq (Fin (of_int i)) g | None \<Rightarrow> False)"
| "py_eq (PFloat f) b =
     (case as_number b of Some g \<Rightarrow> float_eq f g | None \<Rightarrow> False)"
| "py_eq_list [] ys = (ys = [])"
| "py_eq_list (x # xs) ys = (case ys of [] \<Rightarrow> False | y # ys' \<Rightarrow> py_eq x y \<and> py_eq_list xs ys')"

subsection \<open>Characters and strings\<close>

definition code_point :: "char \<Rightarrow> nat" where
  "code_point c = of_char c"

text \<open>\<^verbatim>\<open>str.lower\<close> on code points below 256: A-Z and the Latin-1 capitals.\<close>

definition lower_char :: "char \<Rightarrow> char" where
  "lower_char c =
     (let n = code_point c
      in if (65 \<le> n \<and> n \<le> 90) \<or> (192 \<le> n \<and> n \<le> 222 \<and> n \<noteq> 215)
         then char_of (n + 32) else c)"

definition py_lower :: "string \<Rightarrow> string" where
  "py_lower s = map lower_char s"

text \<open>The characters \<^verbatim>\<open>str.strip()\<close> removes, and the smaller set that \<^verbatim>\<open>int()\<close> and
  \<^verbatim>\<open>float()\<close> tolerate around a literal.\<close>

definition is_space :: "char \<Rightarrow> bool" where
  "is_space c = (code_point c \<in> {9, 10, 11, 12, 13, 28, 29, 30, 31, 32, 133, 160})"

definition is_numeric_space :: "char \<Rightarrow> bool" where
  "is_numeric_space c = (code_point c \<in> {9, 10, 11, 12, 13, 32, 133, 160})"

definition strip_with :: "(char \<Rightarrow> bool) \<Rightarrow> string \<Rightarrow> string" where
  "strip_with p s = rev (dropWhile p (rev (dropWhile p s)))"

definition py_strip :: "string \<Rightarrow> string" where
  "py_strip s = strip_with is_space s"

definition py_endswith :: "string \<Rightarrow> string \<Rightarrow> bool" where
  "py_endswith s suf = (length suf \<le> length s \<and> drop (length s - length suf) s = suf)"

text \<open>\<^verbatim>\<open>s.replace(old, new)\<close>: every non-overlapping occurrence, left to right.\<close>

function py_replace :: "string \<Rightarrow> string \<Rightarrow> string \<Rightarrow> string" where
  "py_replace old new s =
     (if s = [] then (if old = [] then new else [])
      else if old = [] then new @ hd s # py_replace old new (tl s)
      else if take (length old) s = old then new @ py_replace old new (drop (length old) s)
      else hd s # py_replace old new (tl s))"
  by pat_completeness auto
termination
  by (relation "measure (\<lambda>(old, new, s). length s)") auto

declare py_replace.simps [simp del]

definition is_digit :: "char \<Rightarrow> bool" where
  "is_digit c = (48 \<le> code_point c \<and> code_point c \<le> 57)"

definition digit_char :: "nat \<Rightarrow> char" where
  "digit_char d = char_of (48 + d)"

definition digit_value :: "char \<Rightarrow> int" where
  "digit_value c = int (code_point c) - 48"

function show_nat :: "nat \<Rightarrow> string" where
  "show_nat n = (if n < 10 then [digit_char n] else show_nat (n div 10) @ [digit_char (n mod 10)])"
  by pat_completeness auto
termination
  by (relation "measure id") auto

declare show_nat.simps [simp del]

text \<open>\<^verbatim>\<open>str(i)\<close> for an integer.\<close>

definition show_int :: "int \<Rightarrow> string" where
  "show_int i = (if i < 0 then CHR ''-'' # show_nat (nat (- i)) else show_nat (nat i))"

definition hex_char :: "nat \<Rightarrow> char" where
  "hex_char d = (if d < 10 then char_of (48 + d) else char_of (87 + d))"

definition hex2 :: "nat \<Rightarrow> string" where
  "hex2 n = [hex_char (n div 16 mod 16), hex_char (n mod 16)]"

subsection \<open>\<^verbatim>\<open>str\<close> and \<^verbatim>\<open>repr\<close>\<close>

text \<open>
  The shortest round-trip decimal form of a finite binary64 value is not modelled: it is the
  parameter \<open>fr\<close> of everything that prints a float.
\<close>

fun float_repr :: "(rat \<Rightarrow> string) \<Rightarrow> pyfloat \<Rightarrow> string" where
  "float_repr fr (Fin q) = fr q"
| "float_repr fr NegZero = ''-0.0''"
| "float_repr fr PInf = ''inf''"
| "float_repr fr NInf = ''-inf''"
| "float_repr fr NaN = ''nan''"

definition is_printable :: "char \<Rightarrow> bool" where
  "is_printable c =
     (let n = code_point c in (32 \<le> n \<and> n \<le> 126) \<or> (161 \<le> n \<and> n \<noteq> 173))"

definition repr_char :: "char \<Rightarrow> char \<Rightarrow> string" where
  "repr_char quote c =
     (if c = quote \<or> c = CHR 0x5C then [CHR 0x5C, c]
      else if c = CHR 0x09 then [CHR 0x5C, CHR ''t'']
      else if c = CHR 0x0A then [CHR 0x5C, CHR ''n'']
      else if c = CHR 0x0D then [CHR 0x5C, CHR ''r'']
      else if is_printable c then [c]
      else [CHR 0x5C, CHR ''x''] @ hex2 (code_point c))"

definition str_repr :: "string \<Rightarrow> string" where
  "str_repr s =
     (let quote = (if CHR 0x27 \<in> set s \<and> CHR 0x22 \<notin> set s then CHR 0x22 else CHR 0x27)
      in quote # concat (map (repr_char quote) s) @ [quote])"

fun join_with :: "string \<Rightarrow> string list \<Rightarrow> string" where
  "join_with sep [] = []"
| "join_with sep [x] = x"
| "join_with sep (x # y # ys) = x @ sep @ join_with sep (y # ys)"

fun py_repr :: "(rat \<Rightarrow> string) \<Rightarrow> pyval \<Rightarrow> string" where
  "py_repr fr PNone = ''None''"
| "py_repr fr (PBool b) = (if b then ''True'' else ''False'')"
| "py_repr fr (PInt i) = show_int i"
| "py_repr fr (PFloat f) = float_repr fr f"
| "py_repr fr (PStr s) = str_repr s"
| "py_repr fr (PList xs) = ''['' @ join_with '', '' (map (py_repr fr) xs) @ '']''"

fun py_str :: "(rat \<Rightarrow> string) \<Rightarrow> pyval \<Rightarrow> string" where
  "py_str fr (PStr s) = s"
| "py_str fr v = py_repr fr v"

subsection \<open>Numeric literals: \<^verbatim>\<open>int(s)\<close> and \<^verbatim>\<open>float(s)\<close>\<close>

text \<open>
  An underscore in a numeric literal must stand between two digits; \<open>prev\<close> is the
  character before the rest that is still to be scanned (the NUL character at the start).
\<close>

fun underscores_ok :: "char \<Rightarrow> string \<Rightarrow> bool" where
  "underscores_ok prev [] = (prev \<noteq> CHR ''_'')"
| "underscores_ok prev (c # cs) =
     ((if c = CHR ''_'' then is_digit prev else (prev = CHR ''_'' \<longrightarrow> is_digit c))
      \<and> underscores_ok c cs)"

definition int_of_digits :: "string \<Rightarrow> int" where
  "int_of_digits ds = foldl (\<lambda>a c. 10 * a + digit_value c) 0 ds"

fun split_sign :: "string \<Rightarrow> bool \<times> string" where
  "split_sign [] = (False, [])"
| "split_sign (c # cs) =
     (if c = CHR ''-'' then (True, cs) else if c = CHR ''+'' then (False, cs) else (False, c # cs))"

text \<open>\<^verbatim>\<open>int(s)\<close> in base 10 for a string.\<close>

definition py_int_of_str :: "string \<Rightarrow> exn + int" where
  "py_int_of_str s =
     (let (neg, body) = split_sign (strip_with is_numeric_space s)
      in if body \<noteq> [] \<and> list_all (\<lambda>c. is_digit c \<or> c = CHR ''_'') body
            \<and> underscores_ok (CHR 0x00) body
         then (let n = int_of_digits (filter is_digit body) in Inr (if neg then - n else n))
         else Inl ValueError)"

definition pow2 :: "int \<Rightarrow> rat" where
  "pow2 e = (if 0 \<le> e then 2 ^ nat e else 1 / 2 ^ nat (- e))"

definition pow10 :: "int \<Rightarrow> rat" where
  "pow10 e = (if 0 \<le> e then 10 ^ nat e else 1 / 10 ^ nat (- e))"

text \<open>The integer \<open>e\<close> with \<open>2 ^ e \<le> q < 2 ^ (e + 1)\<close>, for a positive \<open>q\<close>.\<close>

definition floor_log2 :: "rat \<Rightarrow> int" where
  "floor_log2 q =
     (let (a, b) = quotient_of q; e = bitlen a - bitlen b
      in if pow2 e \<le> q then e else e - 1)"

definition round_half_even :: "rat \<Rightarrow> int" where
  "round_half_even q =
     (let f = \<lfloor>q\<rfloor>; d = q - of_int f
      in if d < 1 / 2 then f else if 1 / 2 < d then f + 1 else if even f then f else f + 1)"

text \<open>
  Rounding of a magnitude \<open>q \<ge> 0\<close> with sign \<open>neg\<close> to the nearest binary64 value, ties to
  even, subnormals included; \<open>None\<close> when the rounded magnitude leaves the finite range.
\<close>

definition to_binary64 :: "bool \<Rightarrow> rat \<Rightarrow> pyfloat option" where
  "to_binary64 neg q =
     (if q = 0 then Some (if neg then NegZero else Fin 0)
      else
        (let e = max (floor_log2 q) (- 1022);
             ulp = pow2 (e - 52);
             m = of_int (round_half_even (q / ulp)) * ulp
         in if pow2 1024 \<le> m then None
            else if m = 0 then Some (if neg then NegZero else Fin 0)
            else Some (Fin (if neg then - m else m))))"

text \<open>
  A decimal literal without sign: digits, an optional fraction, an optional exponent; at least
  one mantissa digit and, after \<^verbatim>\<open>e\<close>, at least one exponent digit. The result is the
  mantissa as an integer and the power of ten that scales it.
\<close>

definition parse_decimal :: "string \<Rightarrow> (int \<times> int) option" where
  "parse_decimal s =
     (let ip = takeWhile is_digit s;
          r1 = dropWhile is_digit s;
          has_point = (r1 \<noteq> [] \<and> hd r1 = CHR ''.'');
          fp = (if has_point then takeWhile is_digit (tl r1) else []);
          r2 = (if has_point then dropWhile is_digit (tl r1) else r1)
      in if ip = [] \<and> fp = [] then None
         else if r2 = [] then Some (int_of_digits (ip @ fp), - int (length fp))
         else if hd r2 = CHR ''e'' \<or> hd r2 = CHR ''E'' then
           (let (eneg, ed) = split_sign (tl r2)
            in if ed \<noteq> [] \<and> list_all is_digit ed
               then Some (int_of_digits (ip @ fp),
                          (if eneg then - int_of_digits ed else int_of_digits ed)
                            - int (length fp))
               else None)
         else None)"

text \<open>\<^verbatim>\<open>float(s)\<close> for a string: a decimal literal that is too large rounds to an infinity.\<close>

definition py_float_of_str :: "string \<Rightarrow> exn + pyfloat" where
  "py_float_of_str s =
     (let t = strip_with is_numeric_space s
      in if \<not> underscores_ok (CHR 0x00) t then Inl ValueError
         else
           (let (neg, body) = split_sign (filter (\<lambda>c. c \<noteq> CHR ''_'') t)
            in if py_lower body = ''inf'' \<or> py_lower body = ''infinity''
               then Inr (if neg then NInf else PInf)
               else if py_lower body = ''nan'' then Inr NaN
               else (case parse_decimal body of
                       None \<Rightarrow> Inl ValueError
                     | Some (m, e) \<Rightarrow>
                         (case to_binary64 neg (of_int m * pow10 e) of
                            None \<Rightarrow> Inr (if neg then NInf else PInf)
                          | Some f \<Rightarrow> Inr f))))"

text \<open>\<^verbatim>\<open>float(v)\<close> for any value.\<close>

fun py_float :: "pyval \<Rightarrow> exn + pyfloat" where
  "py_float (PStr s) = py_float_of_str s"
| "py_float (PFloat f) = Inr f"
| "py_float (PBool b) = Inr (Fin (if b then 1 else 0))"
| "py_float (PInt i) =
     (case to_binary64 (i < 0) (of_int \<bar>i\<bar>) of None \<Rightarrow> Inl OverflowError | Some f \<Rightarrow> Inr f)"
| "py_float PNone = Inl TypeError"
| "py_float (PList xs) = Inl TypeError"

text \<open>\<^verbatim>\<open>int(f)\<close> for a float: truncation towards zero.\<close>

fun py_int_of_float :: "pyfloat \<Rightarrow> exn + int" where
  "py_int_of_float (Fin q) = Inr (if 0 \<le> q then \<lfloor>q\<rfloor> else \<lceil>q\<rceil>)"
| "py_int_of_float NegZero = Inr 0"
| "py_int_of_float PInf = Inl OverflowError"
| "py_int_of_float NInf = Inl OverflowError"
| "py_int_of_float NaN = Inl ValueError"

text \<open>Sequencing of computations that may raise.\<close>

fun raise_bind :: "exn + 'a \<Rightarrow> ('a \<Rightarrow> exn + 'b) \<Rightarrow> exn + 'b" where
  "raise_bind (Inl e) f = Inl e"
| "raise_bind (Inr x) f = f x"

section \<open>The case-system client: compatibility, coercion, typed update\<close>

subsection \<open>\<^verbatim>\<open>DSClient.check_compatibility\<close>\<close>

datatype verdict = Compatible | NeedsConversion | Incompatible

text \<open>The table of the source, row by row: source type, then destination type.\<close>

definition compatibility_map :: "(string \<times> (string \<times> verdict) list) list" where
  "compatibility_map =
    [(''Text'',
        [(''text'', Compatible), (''textarea'', Compatible), (''checkbox'', NeedsConversion),
         (''date'', NeedsConversion), (''datetime'', NeedsConversion),
         (''number'', NeedsConversion), (''integer_number'', NeedsConversion),
         (''decimal_number'', NeedsConversion), (''drop_down_list'', Compatible)]),
     (''Numeric'',
        [(''text'', Compatible), (''textarea'', Compatible), (''number'', Compatible),
         (''integer_number'', Compatible), (''decimal_number'', Compatible),
         (''checkbox'', Incompatible), (''date'', Incompatible), (''datetime'', Incompatible),
         (''drop_down_list'', NeedsConversion)]),
     (''Int'',
        [(''text'', Compatible), (''textarea'', Compatible), (''number'', Compatible),
         (''integer_number'', Compatible), (''decimal_number'', Compatible),
         (''checkbox'', Incompatible), (''date'', Incompatible), (''datetime'', Incompatible),
         (''drop_down_list'', NeedsConversion)]),
     (''Date'',
        [(''text'', Compatible), (''textarea'', Compatible), (''date'', Compatible),
         (''datetime'', Compatible), (''checkbox'', Incompatible), (''number'', Incompatible),
         (''integer_number'', Incompatible), (''decimal_number'', Incompatible),
         (''drop_down_list'', Incompatible)]),
     (''DateTime'',
        [(''text'', Compatible), (''textarea'', Compatible), (''date'', NeedsConversion),
         (''datetime'', Compatible), (''checkbox'', Incompatible), (''number'', Incompatible),
         (''integer_number'', Incompatible), (''decimal_number'', Incompatible),
         (''drop_down_list'', Incompatible)]),
     (''Bool'',
        [(''text'', Compatible), (''textarea'', Compatible), (''checkbox'', Compatible),
         (''date'', Incompatible), (''datetime'', Incompatible), (''number'', Incompatible),
         (''integer_number'', Incompatible), (''decimal_number'', Incompatible),
         (''drop_down_list'', NeedsConversion)])]"

text \<open>\<^verbatim>\<open>ds_annotation_type.lower().replace('annotation_descriptor_', '')\<close>\<close>

definition normalize_ds_type :: "string \<Rightarrow> string" where
  "normalize_ds_type t = py_replace ''annotation_descriptor_'' [] (py_lower t)"

definition checkbox_vocabulary :: "string list" where
  "checkbox_vocabulary = [''true'', ''false'', ''1'', ''0'', ''oui'', ''non'', ''yes'', ''no'']"

text \<open>
  The body of the \<^verbatim>\<open>try\<close> for a text value against a numeric destination:
  \<^verbatim>\<open>int(float(str(v)))\<close> for \<^verbatim>\<open>integer_number\<close>, \<^verbatim>\<open>float(str(v))\<close> otherwise.
\<close>

definition numeric_probe :: "(rat \<Rightarrow> string) \<Rightarrow> string \<Rightarrow> pyval \<Rightarrow> exn + unit" where
  "numeric_probe fr ds_type_normalized grist_value =
     (if ds_type_normalized = ''integer_number''
      then raise_bind (raise_bind (py_float_of_str (py_str fr grist_value)) py_int_of_float)
             (\<lambda>_. Inr ())
      else raise_bind (py_float_of_str (py_str fr grist_value)) (\<lambda>_. Inr ()))"

text \<open>
  \<open>Inl e\<close> is an exception that leaves the function. The sample value \<^verbatim>\<open>None\<close> is the
  default of the optional third argument. Only \<^verbatim>\<open>ValueError\<close> and \<^verbatim>\<open>TypeError\<close> are
  caught around the numeric probe.
\<close>

definition check_compatibility ::
    "(rat \<Rightarrow> string) \<Rightarrow> string \<Rightarrow> string \<Rightarrow> pyval \<Rightarrow> exn + verdict" where
  "check_compatibility fr grist_type ds_annotation_type grist_value =
     (let ds_type_normalized = normalize_ds_type ds_annotation_type
      in case map_of compatibility_map grist_type of
           None \<Rightarrow> Inr Incompatible
         | Some row \<Rightarrow>
             (let compatibility =
                    (case map_of row ds_type_normalized of Some c \<Rightarrow> c | None \<Rightarrow> Incompatible)
              in if grist_value \<noteq> PNone then
                   (let compatibility' =
                          (if ds_type_normalized = ''checkbox'' \<and> grist_type = ''Text''
                           then (if py_lower (py_str fr grist_value) \<in> set checkbox_vocabulary
                                 then Compatible else Incompatible)
                           else compatibility)
                    in if ds_type_normalized \<in> set [''number'', ''integer_number'', ''decimal_number'']
                          \<and> grist_type = ''Text''
                       then (case numeric_probe fr ds_type_normalized grist_value of
                               Inr _ \<Rightarrow> Inr Compatible
                             | Inl ValueError \<Rightarrow> Inr Incompatible
                             | Inl TypeError \<Rightarrow> Inr Incompatible
                             | Inl e \<Rightarrow> Inl e)
                       else Inr compatibility')
                 else Inr compatibility))"

subsection \<open>\<^verbatim>\<open>DSClient.format_value_for_ds\<close>\<close>

definition truthy_vocabulary :: "string list" where
  "truthy_vocabulary = [''true'', ''1'', ''oui'', ''yes'', ''on'']"

text \<open>The date and datetime branch, for a string and for any other value.\<close>

definition format_date :: "string \<Rightarrow> pyval \<Rightarrow> pyval" where
  "format_date ds_type v =
     (case v of
        PStr s \<Rightarrow>
          (if \<not> py_endswith s ''Z'' then
             (if CHR ''T'' \<notin> set s then
                (if ds_type = ''datetime'' then PStr (s @ ''T00:00:00.000Z'') else PStr s)
              else if \<not> py_endswith s ''Z'' then PStr (s @ ''Z'')
              else PStr s)
           else PStr s)
      | _ \<Rightarrow> v)"

text \<open>
  The \<^verbatim>\<open>except (ValueError, TypeError)\<close> of the coercer returns \<^verbatim>\<open>str(value)\<close>; any
  other exception leaves the function.
\<close>

definition format_value_for_ds :: "(rat \<Rightarrow> string) \<Rightarrow> pyval \<Rightarrow> string \<Rightarrow> exn + pyval" where
  "format_value_for_ds fr v ds_annotation_type =
     (if v = PNone \<or> py_eq v (PStr []) then Inr PNone
      else
        (let ds_type = normalize_ds_type ds_annotation_type;
             attempt =
               (if ds_type = ''checkbox'' then
                  (case v of
                     PBool b \<Rightarrow> Inr (PBool b)
                   | _ \<Rightarrow> Inr (PBool (py_lower (py_str fr v) \<in> set truthy_vocabulary)))
                else if ds_type \<in> set [''number'', ''decimal_number''] then
                  raise_bind (py_float v) (\<lambda>f. Inr (PFloat f))
                else if ds_type = ''integer_number'' then
                  raise_bind (raise_bind (py_float v) py_int_of_float) (\<lambda>i. Inr (PInt i))
                else if ds_type \<in> set [''date'', ''datetime''] then Inr (format_date ds_type v)
                else Inr (PStr (py_str fr v)))
         in case attempt of
              Inl ValueError \<Rightarrow> Inr (PStr (py_str fr v))
            | Inl TypeError \<Rightarrow> Inr (PStr (py_str fr v))
            | r \<Rightarrow> r))"

subsection \<open>The update operations\<close>

text \<open>
  The GraphQL endpoint is an external collaborator: a transition on a world state \<open>'w\<close>
  that answers one mutation. \<open>MutationFailed\<close> is \<^verbatim>\<open>_execute_mutation\<close> returning
  \<^verbatim>\<open>(False, data)\<close>; \<open>MutationAnswer errors annotation\<close> is \<^verbatim>\<open>(True, data)\<close> with the two
  entries of the mutation's payload; \<open>MutationMalformed\<close> is a \<^verbatim>\<open>(True, data)\<close> whose shape
  makes the operation's indexing raise. The \<^verbatim>\<open>clientMutationId\<close> and the instructor
  identity of the input are functions of the rest and are left out.
\<close>

datatype mutation =
    ModifierAnnotationText
  | ModifierAnnotationCheckbox
  | ModifierAnnotationDate
  | ModifierAnnotationDatetime
  | ModifierAnnotationIntegerNumber
  | ModifierAnnotationDecimalNumber
  | ModifierAnnotationDropDownList

datatype mutation_reply =
    MutationFailed pyval
  | MutationAnswer pyval pyval
  | MutationMalformed exn

datatype update_info = EmptyValueIgnored | ReplyData pyval | ExceptionText exn

type_synonym 'w mutation_oracle =
  "'w \<Rightarrow> mutation \<Rightarrow> string \<Rightarrow> string \<Rightarrow> pyval \<Rightarrow> mutation_reply \<times> 'w"

text \<open>What every update operation does once its input value is built.\<close>

definition send_mutation ::
    "'w mutation_oracle \<Rightarrow> 'w \<Rightarrow> mutation \<Rightarrow> string \<Rightarrow> string \<Rightarrow> pyval
      \<Rightarrow> (exn + bool \<times> update_info) \<times> 'w" where
  "send_mutation execute_mutation w m dossier_id annotation_id payload =
     (case execute_mutation w m dossier_id annotation_id payload of
        (MutationFailed d, w') \<Rightarrow> (Inr (False, ReplyData d), w')
      | (MutationAnswer errs ann, w') \<Rightarrow>
          (if truthy errs then (Inr (False, ReplyData errs), w')
           else (Inr (True, ReplyData ann), w'))
      | (MutationMalformed e, w') \<Rightarrow> (Inl e, w'))"

definition update_annotation_text ::
    "(rat \<Rightarrow> string) \<Rightarrow> 'w mutation_oracle \<Rightarrow> 'w \<Rightarrow> string \<Rightarrow> string \<Rightarrow> pyval
      \<Rightarrow> (exn + bool \<times> update_info) \<times> 'w" where
  "update_annotation_text fr ex w dossier_id annotation_id v =
     send_mutation ex w ModifierAnnotationText dossier_id annotation_id (PStr (py_str fr v))"

definition update_annotation_checkbox ::
    "(rat \<Rightarrow> string) \<Rightarrow> 'w mutation_oracle \<Rightarrow> 'w \<Rightarrow> string \<Rightarrow> string \<Rightarrow> pyval
      \<Rightarrow> (exn + bool \<times> update_info) \<times> 'w" where
  "update_annotation_checkbox fr ex w dossier_id annotation_id v =
     (case format_value_for_ds fr v ''checkbox'' of
        Inl e \<Rightarrow> (Inl e, w)
      | Inr bool_value \<Rightarrow>
          send_mutation ex w ModifierAnnotationCheckbox dossier_id annotation_id bool_value)"

definition update_annotation_date ::
    "(rat \<Rightarrow> string) \<Rightarrow> 'w mutation_oracle \<Rightarrow> 'w \<Rightarrow> string \<Rightarrow> string \<Rightarrow> pyval
      \<Rightarrow> (exn + bool \<times> update_info) \<times> 'w" where
  "update_annotation_date fr ex w dossier_id annotation_id v =
     (case format_value_for_ds fr v ''date'' of
        Inl e \<Rightarrow> (Inl e, w)
      | Inr formatted_value \<Rightarrow>
          send_mutation ex w ModifierAnnotationDate dossier_id annotation_id
            (PStr (py_str fr formatted_value)))"

definition update_annotation_datetime ::
    "(rat \<Rightarrow> string) \<Rightarrow> 'w mutation_oracle \<Rightarrow> 'w \<Rightarrow> string \<Rightarrow> string \<Rightarrow> pyval
      \<Rightarrow> (exn + bool \<times> update_info) \<times> 'w" where
  "update_annotation_datetime fr ex w dossier_id annotation_id v =
     (case format_value_for_ds fr v ''datetime'' of
        Inl e \<Rightarrow> (Inl e, w)
      | Inr formatted_value \<Rightarrow>
          send_mutation ex w ModifierAnnotationDatetime dossier_id annotation_id
            (PStr (py_str fr formatted_value)))"

text \<open>The integer operation has a \<^verbatim>\<open>try\<close> of its own around its whole body.\<close>

definition update_annotation_integer_number ::
    "(rat \<Rightarrow> string) \<Rightarrow> 'w mutation_oracle \<Rightarrow> 'w \<Rightarrow> string \<Rightarrow> string \<Rightarrow> pyval
      \<Rightarrow> (exn + bool \<times> update_info) \<times> 'w" where
  "update_annotation_integer_number fr ex w dossier_id annotation_id v =
     (case format_value_for_ds fr v ''integer_number'' of
        Inl e \<Rightarrow> (Inr (False, ExceptionText e), w)
      | Inr int_value \<Rightarrow>
          (case send_mutation ex w ModifierAnnotationIntegerNumber dossier_id annotation_id
                  int_value of
             (Inl e, w') \<Rightarrow> (Inr (False, ExceptionText e), w')
           | (Inr r, w') \<Rightarrow> (Inr r, w')))"

definition update_annotation_decimal_number ::
    "(rat \<Rightarrow> string) \<Rightarrow> 'w mutation_oracle \<Rightarrow> 'w \<Rightarrow> string \<Rightarrow> string \<Rightarrow> pyval
      \<Rightarrow> (exn + bool \<times> update_info) \<times> 'w" where
  "update_annotation_decimal_number fr ex w dossier_id annotation_id v =
     (case format_value_for_ds fr v ''decimal_number'' of
        Inl e \<Rightarrow> (Inl e, w)
      | Inr decimal_value \<Rightarrow>
          send_mutation ex w ModifierAnnotationDecimalNumber dossier_id annotation_id
            decimal_value)"

definition update_annotation_dropdown ::
    "(rat \<Rightarrow> string) \<Rightarrow> 'w mutation_oracle \<Rightarrow> 'w \<Rightarrow> string \<Rightarrow> string \<Rightarrow> pyval
      \<Rightarrow> (exn + bool \<times> update_info) \<times> 'w" where
  "update_annotation_dropdown fr ex w dossier_id annotation_id v =
     send_mutation ex w ModifierAnnotationDropDownList dossier_id annotation_id
       (PStr (py_str fr v))"

subsection \<open>\<^verbatim>\<open>DSClient.update_annotation_by_type\<close>\<close>

text \<open>The \<^verbatim>\<open>if\<close>/\<^verbatim>\<open>elif\<close> chain that selects the operation.\<close>

definition dispatch_update ::
    "(rat \<Rightarrow> string) \<Rightarrow> 'w mutation_oracle \<Rightarrow> 'w \<Rightarrow> string \<Rightarrow> string \<Rightarrow> pyval \<Rightarrow> string
      \<Rightarrow> (exn + bool \<times> update_info) \<times> 'w" where
  "dispatch_update fr ex w dossier_id annotation_id v ds_type =
     (if ds_type \<in> set [''text'', ''textarea''] then
        update_annotation_text fr ex w dossier_id annotation_id v
      else if ds_type = ''checkbox'' then
        update_annotation_checkbox fr ex w dossier_id annotation_id v
      else if ds_type = ''date'' then
        update_annotation_date fr ex w dossier_id annotation_id v
      else if ds_type = ''datetime'' then
        update_annotation_datetime fr ex w dossier_id annotation_id v
      else if ds_type = ''integer_number'' then
        update_annotation_integer_number fr ex w dossier_id annotation_id v
      else if ds_type = ''decimal_number'' then
        update_annotation_decimal_number fr ex w dossier_id annotation_id v
      else if ds_type = ''drop_down_list'' then
        update_annotation_dropdown fr ex w dossier_id annotation_id v
      else update_annotation_text fr ex w dossier_id annotation_id (PStr (py_str fr v)))"

text \<open>
  \<^verbatim>\<open>if not value and value != False: return True, "Valeur vide ignoree"\<close>, then the dispatch
  inside \<^verbatim>\<open>try\<close> / \<^verbatim>\<open>except Exception\<close>, which turns an exception into \<^verbatim>\<open>(False, str(e))\<close>.
\<close>

definition update_annotation_by_type ::
    "(rat \<Rightarrow> string) \<Rightarrow> 'w mutation_oracle \<Rightarrow> 'w \<Rightarrow> string \<Rightarrow> string \<Rightarrow> pyval \<Rightarrow> string
      \<Rightarrow> (bool \<times> update_info) \<times> 'w" where
  "update_annotation_by_type fr ex w dossier_id annotation_id v annotation_type =
     (if \<not> truthy v \<and> \<not> py_eq v (PBool False) then ((True, EmptyValueIgnored), w)
      else
        (case dispatch_update fr ex w dossier_id annotation_id v
                (normalize_ds_type annotation_type) of
           (Inl e, w') \<Rightarrow> ((False, ExceptionText e), w')
         | (Inr r, w') \<Rightarrow> (r, w')))"

section \<open>The source-store client: fingerprint and candidate selection\<close>

subsection \<open>\<^verbatim>\<open>json.dumps(sync_data, sort_keys=True, default=str)\<close>\<close>

definition json_char :: "char \<Rightarrow> string" where
  "json_char c =
     (if c = CHR 0x22 then [CHR 0x5C, CHR 0x22]
      else if c = CHR 0x5C then [CHR 0x5C, CHR 0x5C]
      else if c = CHR 0x0A then [CHR 0x5C, CHR ''n'']
      else if c = CHR 0x0D then [CHR 0x5C, CHR ''r'']
      else if c = CHR 0x09 then [CHR 0x5C, CHR ''t'']
      else if c = CHR 0x08 then [CHR 0x5C, CHR ''b'']
      else if c = CHR 0x0C then [CHR 0x5C, CHR ''f'']
      else if 32 \<le> code_point c \<and> code_point c \<le> 126 then [c]
      else [CHR 0x5C, CHR ''u'', CHR ''0'', CHR ''0''] @ hex2 (code_point c))"

definition json_string :: "string \<Rightarrow> string" where
  "json_string s = CHR 0x22 # concat (map json_char s) @ [CHR 0x22]"

fun json_float :: "(rat \<Rightarrow> string) \<Rightarrow> pyfloat \<Rightarrow> string" where
  "json_float fr NaN = ''NaN''"
| "json_float fr PInf = ''Infinity''"
| "json_float fr NInf = ''-Infinity''"
| "json_float fr f = float_repr fr f"

fun json_value :: "(rat \<Rightarrow> string) \<Rightarrow> pyval \<Rightarrow> string" where
  "json_value fr PNone = ''null''"
| "json_value fr (PBool b) = (if b then ''true'' else ''false'')"
| "json_value fr (PInt i) = show_int i"
| "json_value fr (PFloat f) = json_float fr f"
| "json_value fr (PStr s) = json_string s"
| "json_value fr (PList xs) = ''['' @ join_with '', '' (map (json_value fr) xs) @ '']''"

text \<open>A dictionary is given by its items in insertion order; the keys are sorted on output.\<close>

definition json_dumps_sorted :: "(rat \<Rightarrow> string) \<Rightarrow> (string \<times> pyval) list \<Rightarrow> string" where
  "json_dumps_sorted fr items =
     ''{'' @ join_with '', ''
              (map (\<lambda>(k, v). json_string k @ '': '' @ json_value fr v) (sort_key fst items))
         @ ''}''"

subsection \<open>\<^verbatim>\<open>hashlib.md5(data).hexdigest()\<close>\<close>

type_synonym byte = "8 word"
type_synonym word32 = "32 word"

definition utf8_encode :: "string \<Rightarrow> byte list" where
  "utf8_encode s =
     concat (map (\<lambda>c. let n = code_point c
                       in if n < 128 then [of_nat n]
                          else [of_nat (192 + n div 64), of_nat (128 + n mod 64)]) s)"

definition md5_shifts :: "nat list" where
  "md5_shifts =
     [7, 12, 17, 22, 7, 12, 17, 22, 7, 12, 17, 22, 7, 12, 17, 22,
      5, 9, 14, 20, 5, 9, 14, 20, 5, 9, 14, 20, 5, 9, 14, 20,
      4, 11, 16, 23, 4, 11, 16, 23, 4, 11, 16, 23, 4, 11, 16, 23,
      6, 10, 15, 21, 6, 10, 15, 21, 6, 10, 15, 21, 6, 10, 15, 21]"

definition md5_sines :: "word32 list" where
  "md5_sines =
    [0xd76aa478, 0xe8c7b756, 0x242070db, 0xc1bdceee, 0xf57c0faf, 0x4787c62a,
     0xa8304613, 0xfd469501, 0x698098d8, 0x8b44f7af, 0xffff5bb1, 0x895cd7be,
     0x6b901122, 0xfd987193, 0xa679438e, 0x49b40821, 0xf61e2562, 0xc040b340,
     0x265e5a51, 0xe9b6c7aa, 0xd62f105d, 0x02441453, 0xd8a1e681, 0xe7d3fbc8,
     0x21e1cde6, 0xc33707d6, 0xf4d50d87, 0x455a14ed, 0xa9e3e905, 0xfcefa3f8,
     0x676f02d9, 0x8d2a4c8a, 0xfffa3942, 0x8771f681, 0x6d9d6122, 0xfde5380c,
     0xa4beea44, 0x4bdecfa9, 0xf6bb4b60, 0xbebfbc70, 0x289b7ec6, 0xeaa127fa,
     0xd4ef3085, 0x04881d05, 0xd9d4d039, 0xe6db99e5, 0x1fa27cf8, 0xc4ac5665,
     0xf4292244, 0x432aff97, 0xab9423a7, 0xfc93a039, 0x655b59c3, 0x8f0ccc92,
     0xffeff47d, 0x85845dd1, 0x6fa87e4f, 0xfe2ce6e0, 0xa3014314, 0x4e0811a1,
     0xf7537e82, 0xbd3af235, 0x2ad7d2bb, 0xeb86d391]"

text \<open>Padding: the bit 1, zeros up to 56 modulo 64, the bit length on 64 bits, low byte first.\<close>

definition md5_pad :: "byte list \<Rightarrow> byte list" where
  "md5_pad m =
     (let n = length m;
          bits = (of_nat (8 * n) :: 64 word)
      in m @ [0x80] @ replicate ((119 - n mod 64) mod 64) 0
           @ map (\<lambda>i. ucast (drop_bit (8 * i) bits)) [0..<8])"

definition word_of_bytes :: "byte list \<Rightarrow> word32" where
  "word_of_bytes bs = foldr (\<lambda>b acc. ucast b OR push_bit 8 acc) bs 0"

definition bytes_of_word :: "word32 \<Rightarrow> byte list" where
  "bytes_of_word x = [ucast x, ucast (drop_bit 8 x), ucast (drop_bit 16 x), ucast (drop_bit 24 x)]"

function groups_of :: "nat \<Rightarrow> 'a list \<Rightarrow> 'a list list" where
  "groups_of n xs = (if n = 0 \<or> xs = [] then [] else take n xs # groups_of n (drop n xs))"
  by pat_completeness auto
termination
  by (relation "measure (\<lambda>(n, xs). length xs)") auto

declare groups_of.simps [simp del]

type_synonym md5_state = "word32 \<times> word32 \<times> word32 \<times> word32"

definition md5_step :: "word32 list \<Rightarrow> nat \<Rightarrow> md5_state \<Rightarrow> md5_state" where
  "md5_step block i st =
     (case st of (a, b, c, d) \<Rightarrow>
        (let (f, g) =
               (if i < 16 then ((b AND c) OR (NOT b AND d), i)
                else if i < 32 then ((d AND b) OR (NOT d AND c), (5 * i + 1) mod 16)
                else if i < 48 then (b XOR c XOR d, (3 * i + 5) mod 16)
                else (c XOR (b OR NOT d), (7 * i) mod 16));
             f' = f + a + md5_sines ! i + block ! g
         in (d, b + word_rotl (md5_shifts ! i) f', b, c)))"

definition md5_block :: "md5_state \<Rightarrow> byte list \<Rightarrow> md5_state" where
  "md5_block st chunk =
     (case st of (a0, b0, c0, d0) \<Rightarrow>
        (case fold (md5_step (map word_of_bytes (groups_of 4 chunk))) [0..<64] st of
           (a, b, c, d) \<Rightarrow> (a0 + a, b0 + b, c0 + c, d0 + d)))"

definition md5_digest :: "byte list \<Rightarrow> byte list" where
  "md5_digest m =
     (case fold (\<lambda>chunk st. md5_block st chunk) (groups_of 64 (md5_pad m))
             (0x67452301, 0xefcdab89, 0x98badcfe, 0x10325476) of
        (a, b, c, d) \<Rightarrow> bytes_of_word a @ bytes_of_word b @ bytes_of_word c @ bytes_of_word d)"

definition md5_hexdigest :: "byte list \<Rightarrow> string" where
  "md5_hexdigest m = concat (map (\<lambda>b. hex2 (unat b)) (md5_digest m))"

subsection \<open>\<^verbatim>\<open>GristClient.calculate_data_hash\<close>\<close>

text \<open>
  A record's \<^verbatim>\<open>fields\<close> dictionary is a map from column names to values. The projection
  \<^verbatim>\<open>sync_data\<close> is built in the order of \<^verbatim>\<open>columns_to_sync\<close>; assigning to a key that is
  already there keeps its place.
\<close>

definition project_fields :: "(string \<rightharpoonup> pyval) \<Rightarrow> string list \<Rightarrow> (string \<times> pyval) list" where
  "project_fields record_fields columns_to_sync =
     fold (\<lambda>col sync_data.
             case record_fields col of
               Some v \<Rightarrow> AList.update col v sync_data
             | None \<Rightarrow> sync_data)
          columns_to_sync []"

definition calculate_data_hash ::
    "(rat \<Rightarrow> string) \<Rightarrow> (string \<rightharpoonup> pyval) \<Rightarrow> string list \<Rightarrow> string" where
  "calculate_data_hash fr record_fields columns_to_sync =
     (let sync_data = project_fields record_fields columns_to_sync;
          data_str = json_dumps_sorted fr sync_data
      in take 12 (md5_hexdigest (utf8_encode data_str)))"

subsection \<open>\<^verbatim>\<open>GristClient.get_records_to_sync\<close>\<close>

text \<open>
  A row of the table: its identifier, its cells, and the \<^verbatim>\<open>_current_hash\<close> entry that the
  selection pass adds to the rows it keeps.
\<close>

record grist_record =
  record_id :: int
  record_fields :: "string \<rightharpoonup> pyval"
  current_hash :: "string option"

text \<open>\<^verbatim>\<open>if columns_to_sync\<close>: the argument is \<^verbatim>\<open>None\<close> by default, or a list.\<close>

fun columns_given :: "string list option \<Rightarrow> bool" where
  "columns_given None = False"
| "columns_given (Some cols) = (cols \<noteq> [])"

fun columns_of :: "string list option \<Rightarrow> string list" where
  "columns_of None = []"
| "columns_of (Some cols) = cols"

text \<open>\<^verbatim>\<open>dossier_number_column not in fields or not fields[dossier_number_column]\<close>, negated.\<close>

definition has_dossier_number :: "string \<Rightarrow> (string \<rightharpoonup> pyval) \<Rightarrow> bool" where
  "has_dossier_number dossier_number_column flds =
     (case flds dossier_number_column of None \<Rightarrow> False | Some v \<Rightarrow> truthy v)"

text \<open>The value of \<^verbatim>\<open>should_sync\<close> at the end of the loop body.\<close>

definition should_sync ::
    "(rat \<Rightarrow> string) \<Rightarrow> string \<Rightarrow> string list option \<Rightarrow> bool \<Rightarrow> (string \<rightharpoonup> pyval) \<Rightarrow> bool" where
  "should_sync fr status_column columns_to_sync detect_changes flds =
     (case flds status_column of
        Some status \<Rightarrow>
          (if list_ex (\<lambda>x. py_eq x status) [PNone, PStr [], PStr ''error'', PStr ''pending'']
           then True
           else if detect_changes \<and> columns_given columns_to_sync
                   \<and> py_eq status (PStr ''success'') then
             (let current_hash = calculate_data_hash fr flds (columns_of columns_to_sync);
                  stored_hash = (case flds ''sync_hash'' of Some h \<Rightarrow> h | None \<Rightarrow> PStr [])
              in \<not> py_eq (PStr current_hash) stored_hash)
           else False)
      | None \<Rightarrow> True)"

text \<open>One pass of the loop: the row as it is appended to \<^verbatim>\<open>records_to_sync\<close>, or nothing.\<close>

definition select_record ::
    "(rat \<Rightarrow> string) \<Rightarrow> string \<Rightarrow> string \<Rightarrow> string list option \<Rightarrow> bool \<Rightarrow> grist_record
      \<Rightarrow> grist_record option" where
  "select_record fr dossier_number_column status_column columns_to_sync detect_changes r =
     (let flds = record_fields r
      in if \<not> has_dossier_number dossier_number_column flds then None
         else if should_sync fr status_column columns_to_sync detect_changes flds then
           Some (if columns_given columns_to_sync
                 then r\<lparr>current_hash :=
                          Some (calculate_data_hash fr flds (columns_of columns_to_sync))\<rparr>
                 else r)
         else None)"

text \<open>
  The table read is an external collaborator: \<open>Inl\<close> is a failed read (or a reply without
  rows), \<open>Inr\<close> the rows of the table.
\<close>

definition get_records_to_sync ::
    "(rat \<Rightarrow> string) \<Rightarrow> ('w \<Rightarrow> string \<Rightarrow> int option \<Rightarrow> (string + grist_record list) \<times> 'w) \<Rightarrow> 'w
      \<Rightarrow> string \<Rightarrow> string \<Rightarrow> string \<Rightarrow> string list option \<Rightarrow> bool
      \<Rightarrow> (string + grist_record list) \<times> 'w" where
  "get_records_to_sync fr get_table_data w table_id dossier_number_column status_column
       columns_to_sync detect_changes =
     (case get_table_data w table_id None of
        (Inl err, w') \<Rightarrow> (Inl err, w')
      | (Inr records, w') \<Rightarrow>
          (Inr (List.map_filter
                  (select_record fr dossier_number_column status_column columns_to_sync
                     detect_changes) records), w'))"

subsection \<open>\<^verbatim>\<open>GristClient.update_sync_status\<close>\<close>

text \<open>The bookkeeping cells written back; \<open>timestamp\<close> is the clock reading, already as text.\<close>

definition sync_status_fields ::
    "bool \<Rightarrow> string \<Rightarrow> string \<Rightarrow> string option \<Rightarrow> (string \<times> pyval) list" where
  "sync_status_fields ok message timestamp data_hash =
     [(''sync_status'', PStr (if ok then ''success'' else ''error'')),
      (''sync_date'', PStr timestamp),
      (''sync_message'', PStr (take 500 message))]
     @ (case data_hash of
          Some h \<Rightarrow> (if h \<noteq> [] then [(''sync_hash'', PStr h)] else [])
        | None \<Rightarrow> [])"

section \<open>The synchronisation engine\<close>

subsection \<open>Configuration, collaborators and results\<close>

text \<open>
  \<^verbatim>\<open>SyncConfig\<close>. The column mapping is the dictionary's items in insertion order;
  \<^verbatim>\<open>annotation_types\<close> is \<^verbatim>\<open>None\<close> by default.
\<close>

record sync_config =
  grist_base_url :: string
  grist_token :: string
  grist_doc_id :: string
  grist_table_id :: string
  dossier_number_column :: string
  ds_token :: string
  ds_instructeur_id :: string
  ds_demarche_number :: int
  column_mapping :: "(string \<times> string) list"
  annotation_types :: "(string \<rightharpoonup> string) option"
  limit :: int
  update_grist_status :: bool
  dry_run :: bool
  detect_changes :: bool

text \<open>An annotation as \<^verbatim>\<open>get_dossier_annotations\<close> returns it.\<close>

record annotation =
  ann_id :: string
  ann_label :: string
  ann_ds_type :: "string option"

text \<open>
  The two remote systems and the clock, as transitions on a world state \<open>'w\<close>. Each call
  returns its answer and the next world; what the answers are is not constrained.
\<close>

record 'w collaborators =
  float_text :: "rat \<Rightarrow> string"
  grist_test_connection :: "'w \<Rightarrow> (bool \<times> string) \<times> 'w"
  ds_test_connection :: "'w \<Rightarrow> (bool \<times> string) \<times> 'w"
  get_table_data :: "'w \<Rightarrow> string \<Rightarrow> int option \<Rightarrow> (string + grist_record list) \<times> 'w"
  get_column_type :: "'w \<Rightarrow> string \<Rightarrow> string \<Rightarrow> string \<times> 'w"
  update_record :: "'w \<Rightarrow> string \<Rightarrow> int \<Rightarrow> (string \<times> pyval) list \<Rightarrow> bool \<times> 'w"
  now_isoformat :: "'w \<Rightarrow> string"
  get_dossiers :: "'w \<Rightarrow> int \<Rightarrow> nat \<Rightarrow> (string + (int \<times> string) list) \<times> 'w"
  get_dossier_annotations :: "'w \<Rightarrow> int \<Rightarrow> (string + annotation list) \<times> 'w"
  execute_mutation :: "'w mutation_oracle"

datatype record_status = StatusPending | StatusSuccess | StatusPartialError | StatusError

datatype entry_state = DryRun | Updated

text \<open>An entry of \<^verbatim>\<open>result['updates']\<close>.\<close>

record update_entry =
  grist_column :: string
  annotation_label :: string
  annotation_id :: string
  entry_value :: pyval
  ds_type :: string
  grist_type :: string
  compatibility :: verdict
  entry_status :: entry_state

text \<open>
  The messages of \<^verbatim>\<open>result['errors']\<close>, by the format string that builds them:
  \<^item> \<open>ColumnNotFound c\<close>: \<^verbatim>\<open>Colonne {c} introuvable\<close>
  \<^item> \<open>EmptyDossierNumber\<close>: \<^verbatim>\<open>Numero de dossier vide\<close>
  \<^item> \<open>InvalidDossierNumber raw\<close>: \<^verbatim>\<open>Numero de dossier invalide: {raw} ({e})\<close>
  \<^item> \<open>DossierNotFound n\<close>: \<^verbatim>\<open>Dossier {n} non trouve dans la demarche\<close>
  \<^item> \<open>AnnotationsFetchFailed a\<close>: \<^verbatim>\<open>Erreur recuperation annotations: {a}\<close>
  \<^item> \<open>AnnotationNotFound l\<close>: \<^verbatim>\<open>Annotation '{l}' non trouvee\<close>
  \<^item> \<open>IncompatibleTypes c g d\<close>: \<^verbatim>\<open>Types incompatibles pour {c}: {g} -> {d}\<close>
  \<^item> \<open>UpdateFailed l r\<close>: \<^verbatim>\<open>Erreur mise a jour {l}: {r}\<close>
  \<^item> \<open>Unexpected e\<close>: \<^verbatim>\<open>str(e)\<close>, appended by the catch-all handler.
\<close>

datatype sync_error =
    ColumnNotFound string
  | EmptyDossierNumber
  | InvalidDossierNumber pyval
  | DossierNotFound int
  | AnnotationsFetchFailed string
  | AnnotationNotFound string
  | IncompatibleTypes string string string
  | UpdateFailed string update_info
  | Unexpected exn

text \<open>The dictionary \<^verbatim>\<open>result\<close> of \<^verbatim>\<open>sync_record\<close>.\<close>

record sync_outcome =
  grist_record_id :: int
  dossier_number :: "int option"
  dossier_uuid :: "string option"
  updates :: "update_entry list"
  errors :: "sync_error list"
  status :: record_status

subsection \<open>\<^verbatim>\<open>SyncEngine.sync_record\<close>\<close>

text \<open>
  The inner \<^verbatim>\<open>try\<close> that cleans and converts the dossier number: \<^verbatim>\<open>int(raw.strip())\<close> for a
  string, \<^verbatim>\<open>int(raw)\<close> for an integer, a boolean or a float, \<^verbatim>\<open>ValueError\<close> for any other
  type and for a result that is not positive.
\<close>

definition convert_dossier_number :: "pyval \<Rightarrow> exn + int" where
  "convert_dossier_number raw =
     raise_bind
       (case raw of
          PStr s \<Rightarrow> py_int_of_str (py_strip s)
        | PInt i \<Rightarrow> Inr i
        | PBool b \<Rightarrow> Inr (if b then 1 else 0)
        | PFloat f \<Rightarrow> py_int_of_float f
        | _ \<Rightarrow> Inl ValueError)
       (\<lambda>n. if n \<le> 0 then Inl ValueError else Inr n)"

text \<open>\<^verbatim>\<open>get_annotation_types_mapping\<close>: the configured types, or an empty dictionary.\<close>

definition get_annotation_types_mapping :: "sync_config \<Rightarrow> (string \<rightharpoonup> string)" where
  "get_annotation_types_mapping cfg =
     (case annotation_types cfg of Some m \<Rightarrow> m | None \<Rightarrow> Map.empty)"

text \<open>The two indexes built from the fetched annotations; a later annotation overwrites an
  earlier one with the same label.\<close>

definition annotations_by_label :: "annotation list \<Rightarrow> (string \<rightharpoonup> annotation)" where
  "annotations_by_label anns = fold (\<lambda>ann m. m(ann_label ann \<mapsto> ann)) anns Map.empty"

definition dynamic_annotation_types :: "annotation list \<Rightarrow> (string \<rightharpoonup> string)" where
  "dynamic_annotation_types anns =
     fold (\<lambda>ann m. m(ann_label ann \<mapsto> (case ann_ds_type ann of Some t \<Rightarrow> t | None \<Rightarrow> ''text'')))
       anns Map.empty"

text \<open>\<^verbatim>\<open>final_annotation_types.get(annotation_label, 'text')\<close>\<close>

definition type_of_label :: "(string \<rightharpoonup> string) \<Rightarrow> string \<Rightarrow> string" where
  "type_of_label final_annotation_types label =
     (case final_annotation_types label of Some t \<Rightarrow> t | None \<Rightarrow> ''text'')"

text \<open>What one pass of the per-field loop did.\<close>

datatype field_event =
    Skipped
  | AnnotationMissing
  | Rejected
  | DryRunRecorded
  | UpdateRecorded
  | UpdateRefused
  | Raised exn

text \<open>
  The body of the loop over \<^verbatim>\<open>column_mapping.items()\<close>, on the result so far and the world.
  An exception of the compatibility check leaves the loop (\<open>Raised\<close>).
\<close>

definition sync_field ::
    "'w collaborators \<Rightarrow> sync_config \<Rightarrow> (string \<rightharpoonup> pyval) \<Rightarrow> (string \<rightharpoonup> annotation)
      \<Rightarrow> (string \<rightharpoonup> string) \<Rightarrow> string \<Rightarrow> string \<times> string \<Rightarrow> sync_outcome \<Rightarrow> 'w
      \<Rightarrow> field_event \<times> sync_outcome \<times> 'w" where
  "sync_field env cfg flds by_label final_annotation_types uuid m result w =
     (case m of (grist_col, label) \<Rightarrow>
        (case flds grist_col of
           None \<Rightarrow> (Skipped, result, w)
         | Some v \<Rightarrow>
             if v = PNone
                \<or> (py_eq v (PStr []) \<and> type_of_label final_annotation_types label \<noteq> ''checkbox'')
             then (Skipped, result, w)
             else
               (case by_label label of
                  None \<Rightarrow>
                    (AnnotationMissing,
                     result\<lparr>errors := errors result @ [AnnotationNotFound label]\<rparr>, w)
                | Some ann \<Rightarrow>
                    (let dst = type_of_label final_annotation_types label
                     in case get_column_type env w (grist_table_id cfg) grist_col of
                          (src, w1) \<Rightarrow>
                            (case check_compatibility (float_text env) src dst v of
                               Inl e \<Rightarrow> (Raised e, result, w1)
                             | Inr Incompatible \<Rightarrow>
                                 (Rejected,
                                  result\<lparr>errors :=
                                    errors result @ [IncompatibleTypes grist_col src dst]\<rparr>, w1)
                             | Inr c \<Rightarrow>
                                 (let entry = \<lparr>grist_column = grist_col, annotation_label = label,
                                                annotation_id = ann_id ann, entry_value = v,
                                                ds_type = dst, grist_type = src,
                                                compatibility = c, entry_status = DryRun\<rparr>
                                  in if dry_run cfg then
                                       (DryRunRecorded,
                                        result\<lparr>updates := updates result @ [entry]\<rparr>, w1)
                                     else
                                       (case update_annotation_by_type (float_text env)
                                               (execute_mutation env) w1 uuid (ann_id ann) v dst of
                                          ((ok, info), w2) \<Rightarrow>
                                            if ok then
                                              (UpdateRecorded,
                                               result\<lparr>updates := updates result
                                                  @ [entry\<lparr>entry_status := Updated\<rparr>]\<rparr>, w2)
                                            else
                                              (UpdateRefused,
                                               result\<lparr>errors := errors result
                                                  @ [UpdateFailed label info]\<rparr>, w2))))))))"

text \<open>The loop: the mapping in order, stopped by the first exception.\<close>

fun sync_fields ::
    "'w collaborators \<Rightarrow> sync_config \<Rightarrow> (string \<rightharpoonup> pyval) \<Rightarrow> (string \<rightharpoonup> annotation)
      \<Rightarrow> (string \<rightharpoonup> string) \<Rightarrow> string \<Rightarrow> (string \<times> string) list \<Rightarrow> sync_outcome \<Rightarrow> 'w
      \<Rightarrow> exn option \<times> sync_outcome \<times> 'w" where
  "sync_fields env cfg flds by_label types uuid [] result w = (None, result, w)"
| "sync_fields env cfg flds by_label types uuid (m # ms) result w =
     (case sync_field env cfg flds by_label types uuid m result w of
        (Raised e, result', w') \<Rightarrow> (Some e, result', w')
      | (_, result', w') \<Rightarrow> sync_fields env cfg flds by_label types uuid ms result' w')"

text \<open>\<^verbatim>\<open>Determiner le statut final\<close>: the last statement of the \<^verbatim>\<open>try\<close> block.\<close>

definition final_status :: "sync_outcome \<Rightarrow> record_status" where
  "final_status result =
     (if errors result \<noteq> [] then
        (if updates result \<noteq> [] then StatusPartialError else StatusError)
      else StatusSuccess)"

text \<open>The \<^verbatim>\<open>except Exception\<close> handler that encloses the body of \<^verbatim>\<open>sync_record\<close>.\<close>

definition unexpected :: "exn \<Rightarrow> sync_outcome \<Rightarrow> sync_outcome" where
  "unexpected e result = result\<lparr>errors := errors result @ [Unexpected e], status := StatusError\<rparr>"

definition fail_with :: "sync_error \<Rightarrow> sync_outcome \<Rightarrow> sync_outcome" where
  "fail_with err result = result\<lparr>errors := errors result @ [err], status := StatusError\<rparr>"

definition sync_record ::
    "'w collaborators \<Rightarrow> sync_config \<Rightarrow> grist_record \<Rightarrow> (int \<rightharpoonup> string) \<Rightarrow> 'w
      \<Rightarrow> sync_outcome \<times> 'w" where
  "sync_record env cfg grist_rec dossier_mapping w =
     (let flds = record_fields grist_rec;
          result = \<lparr>grist_record_id = record_id grist_rec, dossier_number = None,
                    dossier_uuid = None, updates = [], errors = [], status = StatusPending\<rparr>
      in case flds (dossier_number_column cfg) of
           None \<Rightarrow> (fail_with (ColumnNotFound (dossier_number_column cfg)) result, w)
         | Some raw_dossier_number \<Rightarrow>
             if \<not> truthy raw_dossier_number then (fail_with EmptyDossierNumber result, w)
             else
               (case convert_dossier_number raw_dossier_number of
                  Inl ValueError \<Rightarrow> (fail_with (InvalidDossierNumber raw_dossier_number) result, w)
                | Inl TypeError \<Rightarrow> (fail_with (InvalidDossierNumber raw_dossier_number) result, w)
                | Inl e \<Rightarrow> (unexpected e result, w)
                | Inr n \<Rightarrow>
                    (let result1 = result\<lparr>dossier_number := Some n\<rparr>
                     in case dossier_mapping n of
                          None \<Rightarrow> (fail_with (DossierNotFound n) result1, w)
                        | Some uuid \<Rightarrow>
                            (let result2 = result1\<lparr>dossier_uuid := Some uuid\<rparr>
                             in case get_dossier_annotations env w n of
                                  (Inl failure, w1) \<Rightarrow>
                                    (fail_with (AnnotationsFetchFailed failure) result2, w1)
                                | (Inr anns, w1) \<Rightarrow>
                                    (case sync_fields env cfg flds (annotations_by_label anns)
                                            (get_annotation_types_mapping cfg
                                               ++ dynamic_annotation_types anns)
                                            uuid (column_mapping cfg) result2 w1 of
                                       (Some e, result3, w2) \<Rightarrow> (unexpected e result3, w2)
                                     | (None, result3, w2) \<Rightarrow>
                                         (result3\<lparr>status := final_status result3\<rparr>, w2))))))"

subsection \<open>\<^verbatim>\<open>SyncEngine.validate_config\<close> and \<^verbatim>\<open>validate_data_compatibility\<close>\<close>

datatype config_problem =
    MissingField string
  | EmptyMapping
  | GristConnectionFailed string
  | DSConnectionFailed string

definition missing_fields :: "sync_config \<Rightarrow> config_problem list" where
  "missing_fields cfg =
     map MissingField
       (map fst (filter (\<lambda>(name, present). \<not> present)
          [(''grist_base_url'', grist_base_url cfg \<noteq> []),
           (''grist_token'', grist_token cfg \<noteq> []),
           (''grist_doc_id'', grist_doc_id cfg \<noteq> []),
           (''grist_table_id'', grist_table_id cfg \<noteq> []),
           (''dossier_number_column'', dossier_number_column cfg \<noteq> []),
           (''ds_token'', ds_token cfg \<noteq> []),
           (''ds_instructeur_id'', ds_instructeur_id cfg \<noteq> []),
           (''ds_demarche_number'', ds_demarche_number cfg \<noteq> 0),
           (''column_mapping'', column_mapping cfg \<noteq> [])]))"

definition validate_config ::
    "'w collaborators \<Rightarrow> sync_config \<Rightarrow> 'w \<Rightarrow> (bool \<times> config_problem list) \<times> 'w" where
  "validate_config env cfg w =
     (case grist_test_connection env w of
        ((grist_ok, grist_data), w1) \<Rightarrow>
          (case ds_test_connection env w1 of
             ((ds_ok, ds_data), w2) \<Rightarrow>
               (let errs = missing_fields cfg
                      @ (if column_mapping cfg = [] then [EmptyMapping] else [])
                      @ (if \<not> grist_ok then [GristConnectionFailed grist_data] else [])
                      @ (if \<not> ds_ok then [DSConnectionFailed ds_data] else [])
                in ((errs = [], errs), w2))))"

text \<open>The column types are read one call per mapped column, in mapping order.\<close>

fun read_column_types ::
    "'w collaborators \<Rightarrow> string \<Rightarrow> string list \<Rightarrow> 'w \<Rightarrow> (string \<times> string) list \<times> 'w" where
  "read_column_types env table_id [] w = ([], w)"
| "read_column_types env table_id (c # cs) w =
     (case get_column_type env w table_id c of
        (t, w1) \<Rightarrow>
          (case read_column_types env table_id cs w1 of
             (ts, w2) \<Rightarrow> ((c, t) # ts, w2)))"

text \<open>The verdicts of the sample values that are neither \<^verbatim>\<open>None\<close> nor empty; the first
  exception of the compatibility check ends the list comprehension.\<close>

fun check_samples :: "(rat \<Rightarrow> string) \<Rightarrow> string \<Rightarrow> string \<Rightarrow> pyval list \<Rightarrow> exn + verdict list" where
  "check_samples fr src dst [] = Inr []"
| "check_samples fr src dst (v # vs) =
     (if v \<noteq> PNone \<and> \<not> py_eq v (PStr []) then
        raise_bind (check_compatibility fr src dst v)
          (\<lambda>c. raise_bind (check_samples fr src dst vs) (\<lambda>cs. Inr (c # cs)))
      else check_samples fr src dst vs)"

definition overall_compatibility :: "verdict list \<Rightarrow> verdict" where
  "overall_compatibility compatibilities =
     (if compatibilities = [] then Compatible
      else if Incompatible \<in> set compatibilities then Incompatible
      else if NeedsConversion \<in> set compatibilities then NeedsConversion
      else Compatible)"

definition sample_values :: "grist_record list \<Rightarrow> string \<Rightarrow> pyval list" where
  "sample_values grist_records grist_col =
     List.map_filter (\<lambda>r. record_fields r grist_col) (take 5 grist_records)"

text \<open>The overall verdict of every mapped column, in mapping order.\<close>

fun column_verdicts ::
    "(rat \<Rightarrow> string) \<Rightarrow> (string \<rightharpoonup> string) \<Rightarrow> (string \<rightharpoonup> string) \<Rightarrow> grist_record list
      \<Rightarrow> (string \<times> string) list \<Rightarrow> exn + verdict list" where
  "column_verdicts fr column_types label_types grist_records [] = Inr []"
| "column_verdicts fr column_types label_types grist_records ((grist_col, label) # ms) =
     raise_bind
       (check_samples fr
          (case column_types grist_col of Some t \<Rightarrow> t | None \<Rightarrow> ''Text'')
          (case label_types label of Some t \<Rightarrow> t | None \<Rightarrow> ''text'')
          (sample_values grist_records grist_col))
       (\<lambda>cs. raise_bind (column_verdicts fr column_types label_types grist_records ms)
                (\<lambda>rest. Inr (overall_compatibility cs # rest)))"

text \<open>
  The report, reduced to its three counters (compatible, needing conversion, incompatible);
  the per-column details, which are only logged, are left out.
\<close>

definition validate_data_compatibility ::
    "'w collaborators \<Rightarrow> sync_config \<Rightarrow> grist_record list \<Rightarrow> 'w
      \<Rightarrow> (exn + nat \<times> nat \<times> nat) \<times> 'w" where
  "validate_data_compatibility env cfg grist_records w =
     (case read_column_types env (grist_table_id cfg) (map fst (column_mapping cfg)) w of
        (column_types, w1) \<Rightarrow>
          (case column_verdicts (float_text env) (map_of column_types)
                  (get_annotation_types_mapping cfg) grist_records (column_mapping cfg) of
             Inl e \<Rightarrow> (Inl e, w1)
           | Inr vs \<Rightarrow>
               (Inr (length (filter (\<lambda>c. c = Compatible) vs),
                     length (filter (\<lambda>c. c = NeedsConversion) vs),
                     length (filter (\<lambda>c. c = Incompatible) vs)), w1)))"

subsection \<open>\<^verbatim>\<open>SyncEngine.execute_sync\<close>\<close>

datatype diagnostic =
    ConfigProblem config_problem
  | GristFailure string
  | DSFailure string
  | UnexpectedFailure exn

text \<open>An entry of \<^verbatim>\<open>error_details\<close>: a diagnostic of the run, or the outcome of a record.\<close>

datatype detail = Diagnostic diagnostic | RecordOutcome sync_outcome

text \<open>\<^verbatim>\<open>SyncResult\<close>, without the elapsed time.\<close>

record sync_result =
  success :: bool
  processed :: nat
  successful :: nat
  error_count :: nat
  results :: "sync_outcome list"
  error_details :: "detail list"

definition failure_report :: "diagnostic \<Rightarrow> sync_result" where
  "failure_report d =
     \<lparr>success = False, processed = 0, successful = 0, error_count = 1, results = [],
      error_details = [Diagnostic d]\<rparr>"

text \<open>\<^verbatim>\<open>xs[:k]\<close> for an integer \<open>k\<close>: a negative bound counts from the end.\<close>

definition slice_to :: "int \<Rightarrow> 'a list \<Rightarrow> 'a list" where
  "slice_to k xs = (if 0 \<le> k then take (nat k) xs else take (length xs - nat (- k)) xs)"

text \<open>\<^verbatim>\<open>Limiter le nombre d'enregistrements\<close>\<close>

definition truncate_records :: "int \<Rightarrow> 'a list \<Rightarrow> 'a list" where
  "truncate_records k grist_records =
     (if k < int (length grist_records) then slice_to k grist_records else grist_records)"

definition dossier_mapping_of :: "(int \<times> string) list \<Rightarrow> (int \<rightharpoonup> string)" where
  "dossier_mapping_of dossiers_data = fold (\<lambda>(number, ident) m. m(number \<mapsto> ident)) dossiers_data Map.empty"

definition sync_message :: "sync_outcome \<Rightarrow> string" where
  "sync_message r =
     (if status r = StatusSuccess
      then ''Synchronized '' @ show_nat (length (updates r)) @ '' annotations''
      else ''Errors: '' @ show_nat (length (errors r)))"

definition update_sync_status ::
    "'w collaborators \<Rightarrow> 'w \<Rightarrow> string \<Rightarrow> int \<Rightarrow> bool \<Rightarrow> string \<Rightarrow> string option \<Rightarrow> bool \<times> 'w" where
  "update_sync_status env w table_id rid ok message data_hash =
     update_record env w table_id rid
       (sync_status_fields ok message (now_isoformat env w) data_hash)"

text \<open>
  The loop over the candidates, on the three accumulators \<^verbatim>\<open>results\<close>, \<^verbatim>\<open>error_details\<close>
  and \<^verbatim>\<open>successful_count\<close>.
\<close>

fun sync_all ::
    "'w collaborators \<Rightarrow> sync_config \<Rightarrow> (int \<rightharpoonup> string) \<Rightarrow> grist_record list
      \<Rightarrow> sync_outcome list \<times> detail list \<times> nat \<Rightarrow> 'w
      \<Rightarrow> (sync_outcome list \<times> detail list \<times> nat) \<times> 'w" where
  "sync_all env cfg dossier_mapping [] acc w = (acc, w)"
| "sync_all env cfg dossier_mapping (r # rs) acc w =
     (case acc of (res, errs, successful_count) \<Rightarrow>
        (case sync_record env cfg r dossier_mapping w of
           (outcome, w1) \<Rightarrow>
             (let acc' = (if status outcome = StatusSuccess
                          then (res @ [outcome], errs, successful_count + 1)
                          else (res, errs @ [RecordOutcome outcome], successful_count));
                  w2 = (if update_grist_status cfg \<and> \<not> dry_run cfg
                        then snd (update_sync_status env w1 (grist_table_id cfg) (record_id r)
                                    (status outcome = StatusSuccess) (sync_message outcome)
                                    (current_hash r))
                        else w1)
              in sync_all env cfg dossier_mapping rs acc' w2)))"

text \<open>The candidates: the selection pass when bookkeeping is on, the raw table otherwise.\<close>

definition load_candidates ::
    "'w collaborators \<Rightarrow> sync_config \<Rightarrow> 'w \<Rightarrow> (string + grist_record list) \<times> 'w" where
  "load_candidates env cfg w =
     (if update_grist_status cfg then
        get_records_to_sync (float_text env) (get_table_data env) w (grist_table_id cfg)
          (dossier_number_column cfg) ''sync_status'' (Some (map fst (column_mapping cfg)))
          (detect_changes cfg)
      else
        (case get_table_data env w (grist_table_id cfg)
                (if limit cfg \<noteq> 0 then Some (limit cfg) else None) of
           (Inl err, w') \<Rightarrow> (Inl ''[]'', w')
         | (Inr records, w') \<Rightarrow> (Inr records, w')))"

definition execute_sync :: "'w collaborators \<Rightarrow> sync_config \<Rightarrow> 'w \<Rightarrow> sync_result \<times> 'w" where
  "execute_sync env cfg w =
     (case validate_config env cfg w of
        ((config_valid, config_errors), w0) \<Rightarrow>
          if \<not> config_valid then
            (\<lparr>success = False, processed = 0, successful = 0,
              error_count = length config_errors, results = [],
              error_details = map (\<lambda>err. Diagnostic (ConfigProblem err)) config_errors\<rparr>, w0)
          else
            (case load_candidates env cfg w0 of
               (Inl err, w1) \<Rightarrow> (failure_report (GristFailure err), w1)
             | (Inr fetched, w1) \<Rightarrow>
                 if fetched = [] then
                   (\<lparr>success = True, processed = 0, successful = 0, error_count = 0,
                     results = [], error_details = []\<rparr>, w1)
                 else
                   (let grist_records = truncate_records (limit cfg) fetched
                    in case validate_data_compatibility env cfg grist_records w1 of
                         (Inl e, w2) \<Rightarrow> (failure_report (UnexpectedFailure e), w2)
                       | (Inr report, w2) \<Rightarrow>
                           (case get_dossiers env w2 (ds_demarche_number cfg) 1000 of
                              (Inl err, w3) \<Rightarrow> (failure_report (DSFailure err), w3)
                            | (Inr dossiers_data, w3) \<Rightarrow>
                                (case sync_all env cfg (dossier_mapping_of dossiers_data)
                                        grist_records ([], [], 0) w3 of
                                   ((res, errs, successful_count), w4) \<Rightarrow>
                                     (\<lparr>success = True, processed = length grist_records,
                                       successful = successful_count,
                                       error_count = length errs, results = res,
                                       error_details = errs\<rparr>, w4))))))"

section \<open>Notions used to state the properties\<close>

text \<open>
  The sequence of outcomes that the loop of \<^verbatim>\<open>execute_sync\<close> computes, record by record, with
  the world threaded through \<^verbatim>\<open>sync_record\<close> and the bookkeeping write exactly as in
  \<open>sync_all\<close>.
\<close>

fun record_outcomes ::
    "'w collaborators \<Rightarrow> sync_config \<Rightarrow> (int \<rightharpoonup> string) \<Rightarrow> grist_record list \<Rightarrow> 'w
      \<Rightarrow> sync_outcome list" where
  "record_outcomes env cfg dossier_mapping [] w = []"
| "record_outcomes env cfg dossier_mapping (r # rs) w =
     (case sync_record env cfg r dossier_mapping w of
        (outcome, w1) \<Rightarrow>
          outcome # record_outcomes env cfg dossier_mapping rs
            (if update_grist_status cfg \<and> \<not> dry_run cfg
             then snd (update_sync_status env w1 (grist_table_id cfg) (record_id r)
                         (status outcome = StatusSuccess) (sync_message outcome)
                         (current_hash r))
             else w1))"

text \<open>The mutation behind the update operation that \<open>dispatch_update\<close> selects.\<close>

definition mutation_of_type :: "string \<Rightarrow> mutation" where
  "mutation_of_type t =
     (if t = ''checkbox'' then ModifierAnnotationCheckbox
      else if t = ''date'' then ModifierAnnotationDate
      else if t = ''datetime'' then ModifierAnnotationDatetime
      else if t = ''integer_number'' then ModifierAnnotationIntegerNumber
      else if t = ''decimal_number'' then ModifierAnnotationDecimalNumber
      else if t = ''drop_down_list'' then ModifierAnnotationDropDownList
      else ModifierAnnotationText)"

text \<open>How \<open>update_annotation_by_type\<close> hands on what an update operation returned.\<close>

fun handed_on :: "(exn + bool \<times> update_info) \<times> 'w \<Rightarrow> (bool \<times> update_info) \<times> 'w" where
  "handed_on (Inl e, w) = ((False, ExceptionText e), w)"
| "handed_on (Inr r, w) = (r, w)"

section \<open>A recording stand-in for the collaborators\<close>

text \<open>
  For the worked scenarios the world is the list of the remote calls made so far. Every read
  succeeds: the table has the rows \<open>scenario_rows\<close>, every column is of type \<^verbatim>\<open>Text\<close>, the
  procedure has the single case 482, and a case carries three annotations. Every mutation is
  accepted. Floats are printed as an integer followed by \<^verbatim>\<open>.0\<close>, which is what Python prints
  for the integral values below \<open>10 ^ 16\<close>.
\<close>

datatype call =
    TestedGrist
  | TestedDS
  | ReadTable "int option"
  | ReadColumnType string
  | WroteRecord int "(string \<times> pyval) list"
  | ListedDossiers int
  | ReadAnnotations int
  | Mutated mutation string string pyval

definition integral_float_text :: "rat \<Rightarrow> string" where
  "integral_float_text q = show_int \<lfloor>q\<rfloor> @ ''.0''"

definition scenario_annotations :: "annotation list" where
  "scenario_annotations =
     [\<lparr>ann_id = ''A1'', ann_label = ''Nom'', ann_ds_type = Some ''text''\<rparr>,
      \<lparr>ann_id = ''A2'', ann_label = ''Montant'', ann_ds_type = Some ''integer_number''\<rparr>,
      \<lparr>ann_id = ''A3'', ann_label = ''Actif'', ann_ds_type = Some ''checkbox''\<rparr>]"

definition scenario_rows :: "grist_record list" where
  "scenario_rows =
     [\<lparr>record_id = 1,
       record_fields = [''dossier'' \<mapsto> PStr ''  482  '', ''nom'' \<mapsto> PStr ''Dupont''],
       current_hash = None\<rparr>,
      \<lparr>record_id = 2,
       record_fields = [''dossier'' \<mapsto> PInt 99, ''nom'' \<mapsto> PStr ''Martin''],
       current_hash = None\<rparr>]"

definition recording :: "call list collaborators" where
  "recording =
     \<lparr>float_text = integral_float_text,
      grist_test_connection = (\<lambda>w. ((True, ''doc''), w @ [TestedGrist])),
      ds_test_connection = (\<lambda>w. ((True, ''demarches''), w @ [TestedDS])),
      get_table_data = (\<lambda>w table_id k. (Inr scenario_rows, w @ [ReadTable k])),
      get_column_type = (\<lambda>w table_id column_id. (''Text'', w @ [ReadColumnType column_id])),
      update_record = (\<lambda>w table_id rid flds. (True, w @ [WroteRecord rid flds])),
      now_isoformat = (\<lambda>w. ''2025-01-01T00:00:00''),
      get_dossiers = (\<lambda>w demarche k. (Inr [(482, ''D482'')], w @ [ListedDossiers demarche])),
      get_dossier_annotations = (\<lambda>w n. (Inr scenario_annotations, w @ [ReadAnnotations n])),
      execute_mutation =
        (\<lambda>w m dossier_id annotation_id v.
           (MutationAnswer (PList []) (PStr annotation_id),
            w @ [Mutated m dossier_id annotation_id v]))\<rparr>"

definition scenario_config :: sync_config where
  "scenario_config =
     \<lparr>grist_base_url = ''https://grist.example/api'', grist_token = ''g'',
      grist_doc_id = ''doc'', grist_table_id = ''Suivi'', dossier_number_column = ''dossier'',
      ds_token = ''d'', ds_instructeur_id = ''I1'', ds_demarche_number = 7,
      column_mapping = [(''nom'', ''Nom''), (''montant'', ''Montant''), (''actif'', ''Actif'')],
      annotation_types = None, limit = 50, update_grist_status = False, dry_run = False,
      detect_changes = True\<rparr>"

definition scenario_mapping :: "int \<rightharpoonup> string" where
  "scenario_mapping = [482 \<mapsto> ''D482'']"

section \<open>Properties\<close>

subsection \<open>Evaluation of the string builtins\<close>

lemmas char_eval = code_point_def lower_char_def char_of_def bit_Suc_0_iff

lemma normalize_known:
  "normalize_ds_type ''text'' = ''text''"
  "normalize_ds_type ''textarea'' = ''textarea''"
  "normalize_ds_type ''checkbox'' = ''checkbox''"
  "normalize_ds_type ''date'' = ''date''"
  "normalize_ds_type ''datetime'' = ''datetime''"
  "normalize_ds_type ''number'' = ''number''"
  "normalize_ds_type ''integer_number'' = ''integer_number''"
  "normalize_ds_type ''decimal_number'' = ''decimal_number''"
  "normalize_ds_type ''drop_down_list'' = ''drop_down_list''"
  by (simp_all add: normalize_ds_type_def py_lower_def char_eval py_replace.simps)

lemma normalize_prefixed_datetime:
  "normalize_ds_type ''annotation_descriptor_DateTime'' = ''datetime''"
  by (simp add: normalize_ds_type_def py_lower_def char_eval py_replace.simps)

lemma py_eq_PStr: "py_eq v (PStr s) \<longleftrightarrow> v = PStr s"
  by (cases v) auto

lemma py_endswith_Z: "py_endswith s ''Z'' \<longleftrightarrow> s \<noteq> [] \<and> last s = CHR ''Z''"
proof (cases s rule: rev_cases)
  case Nil
  then show ?thesis by (simp add: py_endswith_def)
next
  case (snoc ys y)
  then show ?thesis by (simp add: py_endswith_def)
qed

lemma py_float_of_str_error: "py_float_of_str s = Inl e \<Longrightarrow> e = ValueError"
  by (auto simp add: py_float_of_str_def Let_def split: prod.splits if_splits option.splits)

lemma float_of_inf: "py_float_of_str ''inf'' = Inr PInf"
  by (simp add: py_float_of_str_def strip_with_def is_numeric_space_def py_lower_def char_eval)

lemma float_of_minus_infinity: "py_float_of_str ''-Infinity'' = Inr NInf"
  by (simp add: py_float_of_str_def strip_with_def is_numeric_space_def py_lower_def char_eval)

lemma float_of_abc: "py_float_of_str ''abc'' = Inl ValueError"
  by (simp add: py_float_of_str_def strip_with_def is_numeric_space_def py_lower_def char_eval
        parse_decimal_def is_digit_def)

subsection \<open>The value coercer on dates\<close>

text \<open>
  Claim C3, as amended. For a destination type that normalises to \<^verbatim>\<open>date\<close> or \<^verbatim>\<open>datetime\<close>
  and a string \<open>s\<close>, the coercer returns \<^verbatim>\<open>None\<close> when \<open>s\<close> is empty; \<open>s\<close> unchanged when it
  ends with \<^verbatim>\<open>Z\<close>; otherwise, when \<open>s\<close> has no \<^verbatim>\<open>T\<close>, \<open>s\<close> followed by \<^verbatim>\<open>T00:00:00.000Z\<close>
  for a datetime destination and \<open>s\<close> unchanged for a date destination; and \<open>s\<close> followed by
  \<^verbatim>\<open>Z\<close> when it has a \<^verbatim>\<open>T\<close> and does not end with \<^verbatim>\<open>Z\<close>.
\<close>

theorem format_value_date_amended:
  assumes "normalize_ds_type t = ''date'' \<or> normalize_ds_type t = ''datetime''"
  shows "format_value_for_ds fr (PStr s) t =
           (if s = [] then Inr PNone
            else if py_endswith s ''Z'' then Inr (PStr s)
            else if CHR ''T'' \<notin> set s then
              (if normalize_ds_type t = ''datetime'' then Inr (PStr (s @ ''T00:00:00.000Z''))
               else Inr (PStr s))
            else Inr (PStr (s @ ''Z'')))"
  using assms by (auto simp add: format_value_for_ds_def format_date_def Let_def)

text \<open>
  The amended statement at three inputs: a date without time for a datetime destination
  written with the descriptor prefix, a local date-time for a date destination, and a value
  that already ends with \<^verbatim>\<open>Z\<close>.
\<close>

theorem format_value_date_witness:
  "format_value_for_ds integral_float_text (PStr ''2024-01-15'') ''annotation_descriptor_DateTime''
     = Inr (PStr ''2024-01-15T00:00:00.000Z'')
   \<and> format_value_for_ds integral_float_text (PStr ''2024-01-15T10:30:00'') ''date''
     = Inr (PStr ''2024-01-15T10:30:00Z'')
   \<and> format_value_for_ds integral_float_text (PStr ''2024-01-15T10:30:00Z'') ''datetime''
     = Inr (PStr ''2024-01-15T10:30:00Z'')"
  using format_value_date_amended
          [of "''annotation_descriptor_DateTime''" integral_float_text "''2024-01-15''"]
        format_value_date_amended [of "''date''" integral_float_text "''2024-01-15T10:30:00''"]
        format_value_date_amended [of "''datetime''" integral_float_text "''2024-01-15T10:30:00Z''"]
  by (simp add: normalize_known normalize_prefixed_datetime py_endswith_def)

text \<open>
  Claim C3 as stated fails: a date without time component sent to a \<^verbatim>\<open>date\<close> destination
  is returned unchanged, with no \<^verbatim>\<open>Z\<close> appended.
\<close>

theorem format_value_date_counterexample:
  "format_value_for_ds integral_float_text (PStr ''2024-01-15'') ''date''
     = Inr (PStr ''2024-01-15'')
   \<and> format_value_for_ds integral_float_text (PStr ''2024-01-15'') ''date''
     \<noteq> Inr (PStr (''2024-01-15'' @ ''Z''))"
  by (simp add: format_value_for_ds_def format_date_def Let_def normalize_known py_endswith_def)

subsection \<open>The compatibility resolver\<close>

lemma check_compatibility_unknown_source:
  "map_of compatibility_map g = None \<Longrightarrow> check_compatibility fr g t v = Inr Incompatible"
  by (simp add: check_compatibility_def)

lemma check_compatibility_text_checkbox:
  "v \<noteq> PNone \<Longrightarrow> normalize_ds_type t = ''checkbox'' \<Longrightarrow>
   check_compatibility fr ''Text'' t v =
     Inr (if py_lower (py_str fr v) \<in> set checkbox_vocabulary then Compatible else Incompatible)"
  by (simp add: check_compatibility_def compatibility_map_def Let_def)

lemma check_compatibility_text_decimal:
  "v \<noteq> PNone \<Longrightarrow> normalize_ds_type t = ''number'' \<or> normalize_ds_type t = ''decimal_number'' \<Longrightarrow>
   check_compatibility fr ''Text'' t v =
     Inr (case py_float_of_str (py_str fr v) of Inr f \<Rightarrow> Compatible | Inl e \<Rightarrow> Incompatible)"
  by (auto simp add: check_compatibility_def compatibility_map_def Let_def numeric_probe_def
       split: sum.splits exn.splits dest: py_float_of_str_error)

lemma check_compatibility_text_integer:
  "v \<noteq> PNone \<Longrightarrow> normalize_ds_type t = ''integer_number'' \<Longrightarrow>
   check_compatibility fr ''Text'' t v =
     (case py_float_of_str (py_str fr v) of
        Inl e \<Rightarrow> Inr Incompatible
      | Inr NaN \<Rightarrow> Inr Incompatible
      | Inr PInf \<Rightarrow> Inl OverflowError
      | Inr NInf \<Rightarrow> Inl OverflowError
      | Inr f \<Rightarrow> Inr Compatible)"
  by (auto simp add: check_compatibility_def compatibility_map_def Let_def numeric_probe_def
       split: sum.splits exn.splits pyfloat.splits dest: py_float_of_str_error)

text \<open>Scenario A: the text \<^verbatim>\<open>oui\<close> against a checkbox is compatible and coerces to true.\<close>

lemma scenario_text_checkbox_oui:
  "check_compatibility fr ''Text'' ''checkbox'' (PStr ''oui'') = Inr Compatible
   \<and> format_value_for_ds fr (PStr ''oui'') ''checkbox'' = Inr (PBool True)"
  by (simp add: check_compatibility_text_checkbox normalize_known checkbox_vocabulary_def
        format_value_for_ds_def truthy_vocabulary_def py_lower_def char_eval Let_def)

text \<open>Scenario B: the text \<^verbatim>\<open>abc\<close> against an integer destination is incompatible.\<close>

lemma scenario_text_integer_abc:
  "check_compatibility fr ''Text'' ''integer_number'' (PStr ''abc'') = Inr Incompatible"
  by (simp add: check_compatibility_text_integer normalize_known float_of_abc)

text \<open>
  Claim C4, at the input where the code leaves it. A text value against an integer
  destination is probed with \<^verbatim>\<open>int(float(str(v)))\<close>; for the text \<^verbatim>\<open>inf\<close> the conversion to
  float succeeds, the truncation raises \<^verbatim>\<open>OverflowError\<close>, and the handler around the probe
  catches \<^verbatim>\<open>ValueError\<close> and \<^verbatim>\<open>TypeError\<close> only: the resolver returns no verdict.
\<close>

theorem check_compatibility_integer_inf:
  "check_compatibility fr ''Text'' ''integer_number'' (PStr ''inf'') = Inl OverflowError"
  by (simp add: check_compatibility_text_integer normalize_known float_of_inf)

text \<open>
  Claim C5, at an input where the resolver raises: source type \<^verbatim>\<open>Text\<close>, destination type
  \<^verbatim>\<open>integer_number\<close>, sample value \<^verbatim>\<open>-Infinity\<close>.
\<close>

theorem check_compatibility_raises:
  "check_compatibility fr ''Text'' ''integer_number'' (PStr ''-Infinity'') = Inl OverflowError"
  by (simp add: check_compatibility_text_integer normalize_known float_of_minus_infinity)

subsection \<open>The typed update dispatcher\<close>

lemma py_eq_False_cases:
  "py_eq v (PBool False) \<longleftrightarrow> v = PBool False \<or> v = PInt 0 \<or> v = PFloat (Fin 0) \<or> v = PFloat NegZero"
proof (cases v)
  case (PFloat f)
  then show ?thesis by (cases f) auto
qed auto

lemma to_binary64_zero: "to_binary64 False 0 = Some (Fin 0)"
  by (simp add: to_binary64_def)

lemma format_zero_total:
  assumes "py_eq v (PBool False)"
  shows "\<exists>p. format_value_for_ds fr v t = Inr p"
  using assms unfolding py_eq_False_cases
  by (auto simp add: format_value_for_ds_def Let_def to_binary64_zero)

lemma handed_on_integer:
  assumes "format_value_for_ds fr v ''integer_number'' = Inr p"
  shows "handed_on (update_annotation_integer_number fr ex w d a v) =
         handed_on (send_mutation ex w ModifierAnnotationIntegerNumber d a p)"
proof (cases "send_mutation ex w ModifierAnnotationIntegerNumber d a p")
  case (Pair r w')
  then show ?thesis
    by (cases r) (simp_all add: update_annotation_integer_number_def assms)
qed

lemma dispatch_zero:
  assumes "py_eq v (PBool False)"
  shows "\<exists>payload. handed_on (dispatch_update fr ex w d a v t) =
            handed_on (send_mutation ex w (mutation_of_type t) d a payload)"
proof -
  obtain p1 where p1: "format_value_for_ds fr v ''checkbox'' = Inr p1"
    using format_zero_total [OF assms] by blast
  obtain p2 where p2: "format_value_for_ds fr v ''date'' = Inr p2"
    using format_zero_total [OF assms] by blast
  obtain p3 where p3: "format_value_for_ds fr v ''datetime'' = Inr p3"
    using format_zero_total [OF assms] by blast
  obtain p4 where p4: "format_value_for_ds fr v ''integer_number'' = Inr p4"
    using format_zero_total [OF assms] by blast
  obtain p5 where p5: "format_value_for_ds fr v ''decimal_number'' = Inr p5"
    using format_zero_total [OF assms] by blast
  consider (to_text) "t = ''text''"
    | (to_textarea) "t = ''textarea''"
    | (to_checkbox) "t = ''checkbox''"
    | (to_date) "t = ''date''"
    | (to_datetime) "t = ''datetime''"
    | (to_integer) "t = ''integer_number''"
    | (to_decimal) "t = ''decimal_number''"
    | (to_dropdown) "t = ''drop_down_list''"
    | (to_other) "t \<noteq> ''text''" "t \<noteq> ''textarea''" "t \<noteq> ''checkbox''" "t \<noteq> ''date''"
        "t \<noteq> ''datetime''" "t \<noteq> ''integer_number''" "t \<noteq> ''decimal_number''"
        "t \<noteq> ''drop_down_list''"
    by blast
  then show ?thesis
  proof cases
    case to_text
    then show ?thesis
      by (auto simp add: dispatch_update_def mutation_of_type_def update_annotation_text_def)
  next
    case to_textarea
    then show ?thesis
      by (auto simp add: dispatch_update_def mutation_of_type_def update_annotation_text_def)
  next
    case to_checkbox
    then show ?thesis
      by (auto simp add: dispatch_update_def mutation_of_type_def update_annotation_checkbox_def p1)
  next
    case to_date
    then show ?thesis
      by (auto simp add: dispatch_update_def mutation_of_type_def update_annotation_date_def p2)
  next
    case to_datetime
    then show ?thesis
      by (auto simp add: dispatch_update_def mutation_of_type_def update_annotation_datetime_def p3)
  next
    case to_integer
    then have "handed_on (dispatch_update fr ex w d a v t) =
               handed_on (send_mutation ex w (mutation_of_type t) d a p4)"
      using handed_on_integer [OF p4, of ex w d a]
      by (simp add: dispatch_update_def mutation_of_type_def)
    then show ?thesis by (rule exI)
  next
    case to_decimal
    then show ?thesis
      by (auto simp add: dispatch_update_def mutation_of_type_def
            update_annotation_decimal_number_def p5)
  next
    case to_dropdown
    then show ?thesis
      by (auto simp add: dispatch_update_def mutation_of_type_def update_annotation_dropdown_def)
  next
    case to_other
    then show ?thesis
      by (auto simp add: dispatch_update_def mutation_of_type_def update_annotation_text_def)
  qed
qed


text \<open>
  Claim C10. A falsy value that is not equal to \<^verbatim>\<open>False\<close> (\<^verbatim>\<open>None\<close>, the empty string,
  the empty list) makes the dispatcher return success with the note that the empty value was
  ignored, in the world it was called in: no mutation is executed. A value equal to
  \<^verbatim>\<open>False\<close> (the boolean itself, the integer 0, a float zero) is dispatched: the result is
  what the mutation of the destination type returns, executed once with some input value.
\<close>

theorem update_annotation_by_type_falsy:
  "(\<not> truthy v \<and> \<not> py_eq v (PBool False) \<longrightarrow>
      update_annotation_by_type fr ex w d a v t = ((True, EmptyValueIgnored), w))
   \<and> (py_eq v (PBool False) \<longrightarrow>
      (\<exists>payload. update_annotation_by_type fr ex w d a v t =
          handed_on (send_mutation ex w (mutation_of_type (normalize_ds_type t)) d a payload)))"
proof (intro conjI impI)
  assume "\<not> truthy v \<and> \<not> py_eq v (PBool False)"
  then show "update_annotation_by_type fr ex w d a v t = ((True, EmptyValueIgnored), w)"
    by (simp add: update_annotation_by_type_def)
next
  assume z: "py_eq v (PBool False)"
  have same: "update_annotation_by_type fr ex w d a v t =
        handed_on (dispatch_update fr ex w d a v (normalize_ds_type t))"
  proof (cases "dispatch_update fr ex w d a v (normalize_ds_type t)")
    case (Pair r w')
    then show ?thesis
      using z by (cases r) (simp_all add: update_annotation_by_type_def)
  qed
  show "\<exists>payload. update_annotation_by_type fr ex w d a v t =
          handed_on (send_mutation ex w (mutation_of_type (normalize_ds_type t)) d a payload)"
    using dispatch_zero [OF z, of fr ex w d a "normalize_ds_type t"] same by simp
qed

text \<open>
  With the recording collaborators: \<^verbatim>\<open>None\<close>, the empty string and the empty list leave the
  call log empty; \<^verbatim>\<open>False\<close> for a checkbox and 0 for an integer annotation each log one
  mutation of the matching kind.
\<close>

theorem update_annotation_by_type_witness:
  "update_annotation_by_type integral_float_text (execute_mutation recording) [] ''D482'' ''A3''
      PNone ''checkbox'' = ((True, EmptyValueIgnored), [])
   \<and> update_annotation_by_type integral_float_text (execute_mutation recording) [] ''D482'' ''A1''
      (PStr []) ''text'' = ((True, EmptyValueIgnored), [])
   \<and> update_annotation_by_type integral_float_text (execute_mutation recording) [] ''D482'' ''A1''
      (PList []) ''text'' = ((True, EmptyValueIgnored), [])
   \<and> update_annotation_by_type integral_float_text (execute_mutation recording) [] ''D482'' ''A3''
      (PBool False) ''checkbox''
      = ((True, ReplyData (PStr ''A3'')),
         [Mutated ModifierAnnotationCheckbox ''D482'' ''A3'' (PBool False)])
   \<and> update_annotation_by_type integral_float_text (execute_mutation recording) [] ''D482'' ''A2''
      (PInt 0) ''integer_number''
      = ((True, ReplyData (PStr ''A2'')),
         [Mutated ModifierAnnotationIntegerNumber ''D482'' ''A2'' (PInt 0)])"
proof -
  have a: "update_annotation_by_type integral_float_text (execute_mutation recording) [] ''D482''
             ''A3'' PNone ''checkbox'' = ((True, EmptyValueIgnored), [])"
    using update_annotation_by_type_falsy
            [of PNone integral_float_text "execute_mutation recording" "[]" "''D482''" "''A3''"
                "''checkbox''"]
    by simp
  have b: "update_annotation_by_type integral_float_text (execute_mutation recording) [] ''D482''
             ''A1'' (PStr []) ''text'' = ((True, EmptyValueIgnored), [])"
    using update_annotation_by_type_falsy
            [of "PStr []" integral_float_text "execute_mutation recording" "[]" "''D482''" "''A1''"
                "''text''"]
    by simp
  have c: "update_annotation_by_type integral_float_text (execute_mutation recording) [] ''D482''
             ''A1'' (PList []) ''text'' = ((True, EmptyValueIgnored), [])"
    using update_annotation_by_type_falsy
            [of "PList []" integral_float_text "execute_mutation recording" "[]" "''D482''" "''A1''"
                "''text''"]
    by simp
  have d: "update_annotation_by_type integral_float_text (execute_mutation recording) [] ''D482''
             ''A3'' (PBool False) ''checkbox''
           = ((True, ReplyData (PStr ''A3'')),
              [Mutated ModifierAnnotationCheckbox ''D482'' ''A3'' (PBool False)])"
    by (simp add: update_annotation_by_type_def dispatch_update_def normalize_known
          update_annotation_checkbox_def format_value_for_ds_def Let_def send_mutation_def
          recording_def)
  have e: "update_annotation_by_type integral_float_text (execute_mutation recording) [] ''D482''
             ''A2'' (PInt 0) ''integer_number''
           = ((True, ReplyData (PStr ''A2'')),
              [Mutated ModifierAnnotationIntegerNumber ''D482'' ''A2'' (PInt 0)])"
    by (simp add: update_annotation_by_type_def dispatch_update_def normalize_known
          update_annotation_integer_number_def format_value_for_ds_def Let_def send_mutation_def
          recording_def to_binary64_zero)
  show ?thesis using a b c d e by simp
qed

subsection \<open>The fingerprint\<close>

lemma project_fields_agree:
  assumes "\<forall>c \<in> set cols. f1 c = f2 c"
  shows "fold (\<lambda>col sync_data. case f1 col of Some v \<Rightarrow> AList.update col v sync_data | None \<Rightarrow> sync_data) cols acc
       = fold (\<lambda>col sync_data. case f2 col of Some v \<Rightarrow> AList.update col v sync_data | None \<Rightarrow> sync_data) cols acc"
  using assms by (induction cols arbitrary: acc) simp_all

lemma length_hex_bytes: "length (concat (map (\<lambda>b. hex2 (unat b)) bs)) = 2 * length bs"
  by (induction bs) (simp_all add: hex2_def)

lemma length_md5_digest: "length (md5_digest m) = 16"
  by (simp add: md5_digest_def bytes_of_word_def split: prod.splits)

lemma length_md5_hexdigest: "length (md5_hexdigest m) = 32"
  by (simp add: md5_hexdigest_def length_hex_bytes length_md5_digest)

lemma length_calculate_data_hash: "length (calculate_data_hash fr flds cols) = 12"
  by (simp add: calculate_data_hash_def Let_def length_md5_hexdigest)

text \<open>
  Claim C8. Two field dictionaries that agree on every tracked column have the same
  fingerprint, whatever else they hold, and a fingerprint has exactly 12 characters (the first
  12 of the 32 hexadecimal digits of an MD5 digest).
\<close>

theorem calculate_data_hash_projection:
  assumes "\<forall>c \<in> set cols. f1 c = f2 c"
  shows "calculate_data_hash fr f1 cols = calculate_data_hash fr f2 cols
         \<and> length (calculate_data_hash fr f1 cols) = 12"
  using project_fields_agree [OF assms]
  by (simp add: calculate_data_hash_def project_fields_def Let_def length_md5_hexdigest)

text \<open>
  Two rows with the same name and age, the second with two more cells that are not tracked;
  the tracked column \<^verbatim>\<open>ville\<close> is absent from both.
\<close>

theorem calculate_data_hash_witness:
  "calculate_data_hash integral_float_text
      [''nom'' \<mapsto> PStr ''Dupont'', ''age'' \<mapsto> PInt 42] [''nom'', ''age'', ''ville'']
   = calculate_data_hash integral_float_text
      [''nom'' \<mapsto> PStr ''Dupont'', ''age'' \<mapsto> PInt 42, ''sync_status'' \<mapsto> PStr ''success'',
       ''note'' \<mapsto> PNone] [''nom'', ''age'', ''ville'']
   \<and> length (calculate_data_hash integral_float_text
      [''nom'' \<mapsto> PStr ''Dupont'', ''age'' \<mapsto> PInt 42] [''nom'', ''age'', ''ville'']) = 12"
proof -
  have agree:
    "\<forall>c \<in> set [''nom'', ''age'', ''ville''].
        [''nom'' \<mapsto> PStr ''Dupont'', ''age'' \<mapsto> PInt 42] c
        = [''nom'' \<mapsto> PStr ''Dupont'', ''age'' \<mapsto> PInt 42,
           ''sync_status'' \<mapsto> PStr ''success'', ''note'' \<mapsto> PNone] c"
    by simp
  show ?thesis
    by (rule calculate_data_hash_projection [OF agree])
qed

subsection \<open>Candidate selection\<close>

lemma stored_hash_differs:
  "\<not> py_eq (PStr (calculate_data_hash fr flds cols))
        (case flds ''sync_hash'' of Some h \<Rightarrow> h | None \<Rightarrow> PStr [])
   \<longleftrightarrow> flds ''sync_hash'' \<noteq> Some (PStr (calculate_data_hash fr flds cols))"
proof (cases "flds ''sync_hash''")
  case None
  have "calculate_data_hash fr flds cols \<noteq> []"
    using length_calculate_data_hash [of fr flds cols] by auto
  with None show ?thesis by auto
next
  case (Some h)
  then show ?thesis by auto
qed

lemma should_sync_iff:
  assumes "flds status_column = Some st"
  shows "should_sync fr status_column cols detect flds \<longleftrightarrow>
         st = PNone \<or> st = PStr [] \<or> st = PStr ''error'' \<or> st = PStr ''pending''
         \<or> (st = PStr ''success'' \<and> detect \<and> columns_given cols
             \<and> flds ''sync_hash'' \<noteq> Some (PStr (calculate_data_hash fr flds (columns_of cols))))"
  using assms stored_hash_differs [of fr flds "columns_of cols"]
  by (auto simp add: should_sync_def Let_def py_eq_PStr)

lemma get_records_to_sync_rows:
  assumes "read_table w table_id None = (Inr rows, w')"
  shows "get_records_to_sync fr read_table w table_id dossier_column status_column cols detect
         = (Inr (List.map_filter
                   (select_record fr dossier_column status_column cols detect) rows), w')"
  using assms by (simp add: get_records_to_sync_def)

text \<open>
  Claim C1, as amended. A row whose cells include the status column is kept by the selection
  pass exactly when it has a dossier number (the cell is present and truthy) and either its
  status is \<^verbatim>\<open>None\<close>, empty, \<^verbatim>\<open>error\<close> or \<^verbatim>\<open>pending\<close>, or its status is \<^verbatim>\<open>success\<close>, change
  detection is on, a non-empty list of tracked columns is given and the stored \<^verbatim>\<open>sync_hash\<close>
  is not the fingerprint computed now. In every other case the row is dropped.
\<close>

theorem select_record_iff:
  assumes "record_fields r status_column = Some st"
  shows "select_record fr dossier_column status_column cols detect r \<noteq> None \<longleftrightarrow>
         has_dossier_number dossier_column (record_fields r)
         \<and> (st = PNone \<or> st = PStr [] \<or> st = PStr ''error'' \<or> st = PStr ''pending''
            \<or> (st = PStr ''success'' \<and> detect \<and> columns_given cols
                \<and> record_fields r ''sync_hash''
                    \<noteq> Some (PStr (calculate_data_hash fr (record_fields r) (columns_of cols)))))"
  using should_sync_iff [where flds = "record_fields r", OF assms, of fr cols detect]
  by (simp add: select_record_def Let_def)


text \<open>
  A synchronised row with a stale stored fingerprint is kept when change detection is on and
  dropped when it is off; a pending row is kept even with no tracked columns.
\<close>

theorem select_record_witness:
  "select_record integral_float_text ''dossier'' ''sync_status'' (Some [''nom'']) True
      \<lparr>record_id = 1,
       record_fields = [''dossier'' \<mapsto> PInt 482, ''sync_status'' \<mapsto> PStr ''success'',
                        ''sync_hash'' \<mapsto> PStr ''stale'', ''nom'' \<mapsto> PStr ''Dupont''],
       current_hash = None\<rparr> \<noteq> None
   \<and> select_record integral_float_text ''dossier'' ''sync_status'' (Some [''nom'']) False
      \<lparr>record_id = 1,
       record_fields = [''dossier'' \<mapsto> PInt 482, ''sync_status'' \<mapsto> PStr ''success'',
                        ''sync_hash'' \<mapsto> PStr ''stale'', ''nom'' \<mapsto> PStr ''Dupont''],
       current_hash = None\<rparr> = None
   \<and> select_record integral_float_text ''dossier'' ''sync_status'' None True
      \<lparr>record_id = 2,
       record_fields = [''dossier'' \<mapsto> PStr ''483'', ''sync_status'' \<mapsto> PStr ''pending''],
       current_hash = None\<rparr> \<noteq> None"
proof -
  let ?flds = "[''dossier'' \<mapsto> PInt 482, ''sync_status'' \<mapsto> PStr ''success'',
                ''sync_hash'' \<mapsto> PStr ''stale'', ''nom'' \<mapsto> PStr ''Dupont'']"
  let ?row = "\<lparr>record_id = 1, record_fields = ?flds, current_hash = None\<rparr>"
  let ?row2 = "\<lparr>record_id = 2,
       record_fields = [''dossier'' \<mapsto> PStr ''483'', ''sync_status'' \<mapsto> PStr ''pending''],
       current_hash = None\<rparr>"
  have "length (calculate_data_hash integral_float_text ?flds [''nom'']) = 12"
    by (rule length_calculate_data_hash)
  then have stale: "calculate_data_hash integral_float_text ?flds [''nom''] \<noteq> ''stale''"
    by auto
  have st: "record_fields ?row ''sync_status'' = Some (PStr ''success'')"
    by simp
  have st2: "record_fields ?row2 ''sync_status'' = Some (PStr ''pending'')"
    by simp
  have a: "select_record integral_float_text ''dossier'' ''sync_status'' (Some [''nom'']) True ?row
             \<noteq> None"
    using select_record_iff [OF st, of integral_float_text "''dossier''" "Some [''nom'']" True] stale
    by (simp add: has_dossier_number_def)
  have b: "select_record integral_float_text ''dossier'' ''sync_status'' (Some [''nom'']) False ?row
             = None"
    using select_record_iff [OF st, of integral_float_text "''dossier''" "Some [''nom'']" False]
    by (simp add: has_dossier_number_def)
  have c: "select_record integral_float_text ''dossier'' ''sync_status'' None True ?row2 \<noteq> None"
    using select_record_iff [OF st2, of integral_float_text "''dossier''" None True]
    by (simp add: has_dossier_number_def)
  show ?thesis using a b c by simp
qed

text \<open>
  Claim C1 as stated fails: a row whose status is \<^verbatim>\<open>pending\<close> but which has no dossier number
  is not selected.
\<close>

theorem get_records_to_sync_counterexample:
  "fst (get_records_to_sync integral_float_text
          (\<lambda>w table_id k.
             (Inr [\<lparr>record_id = 3,
                    record_fields = [''sync_status'' \<mapsto> PStr ''pending'',
                                     ''nom'' \<mapsto> PStr ''Durand''],
                    current_hash = None\<rparr>], w))
          () ''Suivi'' ''dossier'' ''sync_status'' (Some [''nom'']) True) = Inr []"
  by (simp add: get_records_to_sync_def select_record_def has_dossier_number_def
        List.map_filter_simps)

subsection \<open>The dossier-number guard of the record synchroniser\<close>

lemma convert_dossier_number_Inr_iff:
  "convert_dossier_number raw = Inr n \<longleftrightarrow>
     0 < n \<and> ((\<exists>s. raw = PStr s \<and> py_int_of_str (py_strip s) = Inr n)
             \<or> raw = PInt n
             \<or> (raw = PBool True \<and> n = 1)
             \<or> (\<exists>f. raw = PFloat f \<and> py_int_of_float f = Inr n))"
proof (cases raw)
  case (PStr s)
  then show ?thesis
    by (cases "py_int_of_str (py_strip s)") (auto simp add: convert_dossier_number_def)
next
  case (PFloat f)
  then show ?thesis
    by (cases "py_int_of_float f") (auto simp add: convert_dossier_number_def)
qed (auto simp add: convert_dossier_number_def)

lemma convert_padded_482: "convert_dossier_number (PStr ''  482  '') = Inr 482"
  by (simp add: convert_dossier_number_def py_int_of_str_def py_strip_def strip_with_def
        is_space_def is_numeric_space_def code_point_def is_digit_def int_of_digits_def
        digit_value_def)

lemma sync_record_column_absent:
  assumes "record_fields r (dossier_number_column cfg) = None"
  shows "sync_record env cfg r dossier_mapping w =
           (\<lparr>grist_record_id = record_id r, dossier_number = None, dossier_uuid = None,
             updates = [], errors = [ColumnNotFound (dossier_number_column cfg)],
             status = StatusError\<rparr>, w)"
  using assms by (simp add: sync_record_def Let_def fail_with_def)

lemma sync_record_number_empty:
  assumes "record_fields r (dossier_number_column cfg) = Some raw" and "\<not> truthy raw"
  shows "sync_record env cfg r dossier_mapping w =
           (\<lparr>grist_record_id = record_id r, dossier_number = None, dossier_uuid = None,
             updates = [], errors = [EmptyDossierNumber], status = StatusError\<rparr>, w)"
  using assms by (simp add: sync_record_def Let_def fail_with_def)

lemma sync_record_number_invalid:
  assumes "record_fields r (dossier_number_column cfg) = Some raw" and "truthy raw"
    and "convert_dossier_number raw = Inl e"
  shows "sync_record env cfg r dossier_mapping w =
           (\<lparr>grist_record_id = record_id r, dossier_number = None, dossier_uuid = None,
             updates = [],
             errors = [if e = ValueError \<or> e = TypeError then InvalidDossierNumber raw
                       else Unexpected e],
             status = StatusError\<rparr>, w)"
  using assms by (cases e) (simp_all add: sync_record_def Let_def fail_with_def unexpected_def)

lemma sync_record_number_unknown:
  assumes "record_fields r (dossier_number_column cfg) = Some raw" and "truthy raw"
    and "convert_dossier_number raw = Inr n" and "dossier_mapping n = None"
  shows "sync_record env cfg r dossier_mapping w =
           (\<lparr>grist_record_id = record_id r, dossier_number = Some n, dossier_uuid = None,
             updates = [], errors = [DossierNotFound n], status = StatusError\<rparr>, w)"
  using assms by (simp add: sync_record_def Let_def fail_with_def)

text \<open>
  Claim C7. When the dossier-number cell is absent, falsy, not convertible to a positive
  integer (as a trimmed string, an integer or a float), or converts to a number that the
  number-to-identity map does not hold, the record synchroniser returns status \<^verbatim>\<open>error\<close>
  with no update and one error, in the world it was called in: no annotation is fetched and
  no mapped field is looked at. The string \<^verbatim>\<open>"  482  "\<close> converts to 482; when 482 is not in
  the map the single error is the one that names dossier 482.
\<close>

theorem sync_record_dossier_guard:
  "((record_fields r (dossier_number_column cfg) = None
      \<or> (\<exists>raw. record_fields r (dossier_number_column cfg) = Some raw
            \<and> (\<not> truthy raw
                \<or> (\<exists>e. convert_dossier_number raw = Inl e)
                \<or> (\<exists>n. convert_dossier_number raw = Inr n \<and> dossier_mapping n = None))))
     \<longrightarrow> (\<exists>num err. sync_record env cfg r dossier_mapping w =
            (\<lparr>grist_record_id = record_id r, dossier_number = num, dossier_uuid = None,
              updates = [], errors = [err], status = StatusError\<rparr>, w)))
   \<and> convert_dossier_number (PStr ''  482  '') = Inr 482
   \<and> (record_fields r (dossier_number_column cfg) = Some (PStr ''  482  '')
        \<and> dossier_mapping 482 = None
     \<longrightarrow> sync_record env cfg r dossier_mapping w =
            (\<lparr>grist_record_id = record_id r, dossier_number = Some 482, dossier_uuid = None,
              updates = [], errors = [DossierNotFound 482], status = StatusError\<rparr>, w))"
proof (intro conjI impI)
  assume bad: "record_fields r (dossier_number_column cfg) = None
      \<or> (\<exists>raw. record_fields r (dossier_number_column cfg) = Some raw
            \<and> (\<not> truthy raw
                \<or> (\<exists>e. convert_dossier_number raw = Inl e)
                \<or> (\<exists>n. convert_dossier_number raw = Inr n \<and> dossier_mapping n = None)))"
  show "\<exists>num err. sync_record env cfg r dossier_mapping w =
            (\<lparr>grist_record_id = record_id r, dossier_number = num, dossier_uuid = None,
              updates = [], errors = [err], status = StatusError\<rparr>, w)"
  proof (cases "record_fields r (dossier_number_column cfg)")
    case None
    then show ?thesis
      by (intro exI, rule sync_record_column_absent)
  next
    case (Some raw)
    show ?thesis
    proof (cases "truthy raw")
      case False
      with Some show ?thesis
        by (intro exI, rule sync_record_number_empty)
    next
      case True
      show ?thesis
      proof (cases "convert_dossier_number raw")
        case (Inl e)
        with Some True show ?thesis
          by (intro exI, rule sync_record_number_invalid)
      next
        case (Inr n)
        with bad Some True have "dossier_mapping n = None" by auto
        with Some True Inr show ?thesis
          by (intro exI, rule sync_record_number_unknown)
      qed
    qed
  qed
next
  show "convert_dossier_number (PStr ''  482  '') = Inr 482"
    by (rule convert_padded_482)
next
  assume "record_fields r (dossier_number_column cfg) = Some (PStr ''  482  '')
            \<and> dossier_mapping 482 = None"
  then show "sync_record env cfg r dossier_mapping w =
            (\<lparr>grist_record_id = record_id r, dossier_number = Some 482, dossier_uuid = None,
              updates = [], errors = [DossierNotFound 482], status = StatusError\<rparr>, w)"
    using sync_record_number_unknown [of r cfg "PStr ''  482  ''" 482 dossier_mapping env w]
          convert_padded_482
    by simp
qed

text \<open>
  With the recording collaborators: the padded number 482 against an empty map, and the
  number 0 against the map of the scenario. The call log stays empty in both.
\<close>

theorem sync_record_dossier_guard_witness:
  "sync_record recording scenario_config
      \<lparr>record_id = 1,
       record_fields = [''dossier'' \<mapsto> PStr ''  482  '', ''nom'' \<mapsto> PStr ''Dupont''],
       current_hash = None\<rparr> Map.empty []
     = (\<lparr>grist_record_id = 1, dossier_number = Some 482, dossier_uuid = None,
         updates = [], errors = [DossierNotFound 482], status = StatusError\<rparr>, [])
   \<and> (\<exists>num err. sync_record recording scenario_config
      \<lparr>record_id = 2, record_fields = [''dossier'' \<mapsto> PInt 0, ''nom'' \<mapsto> PStr ''Martin''],
       current_hash = None\<rparr> scenario_mapping []
     = (\<lparr>grist_record_id = 2, dossier_number = num, dossier_uuid = None,
         updates = [], errors = [err], status = StatusError\<rparr>, []))"
proof -
  let ?r1 = "\<lparr>record_id = 1,
       record_fields = [''dossier'' \<mapsto> PStr ''  482  '', ''nom'' \<mapsto> PStr ''Dupont''],
       current_hash = None\<rparr>"
  let ?r2 = "\<lparr>record_id = 2, record_fields = [''dossier'' \<mapsto> PInt 0, ''nom'' \<mapsto> PStr ''Martin''],
       current_hash = None\<rparr>"
  show ?thesis
    using sync_record_dossier_guard [of ?r1 scenario_config Map.empty recording "[]"]
          sync_record_dossier_guard [of ?r2 scenario_config scenario_mapping recording "[]"]
    by (simp add: scenario_config_def)
qed

end
